theory Spec2Isabelle
  imports Main "HOL-Library.Word" "HOL-Library.AList"
begin

section \<open>Python strings\<close>

text \<open>
  A Python \<open>str\<close> is a sequence of code points. The model takes the code points
  U+0000 to U+00FF: a \<^typ>\<open>char\<close> is one code point (not a UTF-8 byte), and
  \<^typ>\<open>string\<close> is a \<open>str\<close> over that repertoire. It contains ASCII and the
  non-ASCII letters, digits and blanks of Latin-1, on which \<open>str.lower\<close>,
  \<open>str.strip\<close> and the classes \<open>\s\<close>, \<open>\w\<close>, \<open>\d\<close> of \<open>re\<close> (Unicode-aware
  for \<open>str\<close> patterns) are closed and work character by character.
\<close>

definition code :: "char \<Rightarrow> nat" where
  "code c = of_char c"

text \<open>\<open>str.isspace\<close>, which is also what \<open>strip()\<close> removes and what \<open>\s\<close> matches:
  TAB to CR, FS to US, space, NEL (U+0085) and NBSP (U+00A0).\<close>

definition py_isspace :: "char \<Rightarrow> bool" where
  "py_isspace c =
     (let n = code c
      in (9 \<le> n \<and> n \<le> 13) \<or> (28 \<le> n \<and> n \<le> 32) \<or> n = 133 \<or> n = 160)"

text \<open>The characters with a lowercase mapping: A-Z, U+00C0-U+00D6, U+00D8-U+00DE.\<close>

definition py_isupper :: "char \<Rightarrow> bool" where
  "py_isupper c =
     (let n = code c
      in (65 \<le> n \<and> n \<le> 90) \<or> (192 \<le> n \<and> n \<le> 214) \<or> (216 \<le> n \<and> n \<le> 222))"

definition lower_char :: "char \<Rightarrow> char" where
  "lower_char c = (if py_isupper c then char_of (code c + 32) else c)"

definition py_lower :: "string \<Rightarrow> string" where
  "py_lower s = map lower_char s"

definition py_lstrip :: "string \<Rightarrow> string" where
  "py_lstrip s = dropWhile py_isspace s"

definition py_rstrip :: "string \<Rightarrow> string" where
  "py_rstrip s = rev (dropWhile py_isspace (rev s))"

definition py_strip :: "string \<Rightarrow> string" where
  "py_strip s = py_rstrip (py_lstrip s)"

text \<open>\<open>\d\<close>: the decimal digits (in this repertoire, 0-9 only).\<close>

definition re_digit :: "char \<Rightarrow> bool" where
  "re_digit c = (let n = code c in 48 \<le> n \<and> n \<le> 57)"

text \<open>\<open>\w\<close> on a \<open>str\<close> pattern: \<open>str.isalnum\<close> or the underscore. Beyond
  \<open>[A-Za-z0-9_]\<close> that is U+00AA, U+00B2, U+00B3, U+00B5, U+00B9, U+00BA,
  U+00BC-U+00BE and the letters U+00C0-U+00FF other than the signs U+00D7, U+00F7.\<close>

definition ascii_word :: "char \<Rightarrow> bool" where
  "ascii_word c =
     (let n = code c
      in (48 \<le> n \<and> n \<le> 57) \<or> (65 \<le> n \<and> n \<le> 90) \<or> n = 95 \<or> (97 \<le> n \<and> n \<le> 122))"

definition re_word :: "char \<Rightarrow> bool" where
  "re_word c =
     (let n = code c
      in ascii_word c \<or> n = 170 \<or> n = 178 \<or> n = 179 \<or> n = 181 \<or> n = 185 \<or> n = 186
         \<or> (188 \<le> n \<and> n \<le> 190) \<or> (192 \<le> n \<and> n \<le> 214)
         \<or> (216 \<le> n \<and> n \<le> 246) \<or> (248 \<le> n \<and> n \<le> 255))"

definition is_ascii :: "char \<Rightarrow> bool" where
  "is_ascii c = (code c < 128)"

text \<open>\<open>s.split(sep)\<close> for a one-character separator: never empty, \<open>''''.split(sep) = ['''']\<close>.\<close>

fun py_split :: "char \<Rightarrow> string \<Rightarrow> string list" where
  "py_split sep [] = [[]]"
| "py_split sep (c # cs) =
     (if c = sep then [] # py_split sep cs
      else (case py_split sep cs of [] \<Rightarrow> [[c]] | w # ws \<Rightarrow> (c # w) # ws))"

text \<open>\<open>sep.join(parts)\<close>.\<close>

fun py_join :: "string \<Rightarrow> string list \<Rightarrow> string" where
  "py_join sep [] = []"
| "py_join sep [p] = p"
| "py_join sep (p # q # ps) = p @ sep @ py_join sep (q # ps)"

text \<open>\<open>needle in hay\<close> for strings.\<close>

fun py_contains :: "string \<Rightarrow> string \<Rightarrow> bool" where
  "py_contains needle [] = (needle = [])"
| "py_contains needle (c # cs) = (take (length needle) (c # cs) = needle \<or> py_contains needle cs)"

section \<open>Exceptions\<close>

text \<open>
  The exceptions that the translated code can raise are values: a function that may raise
  returns \<open>py_error + 'a\<close>, with \<open>Inl\<close> for the exception.
\<close>

datatype py_error = AttributeError | TypeError | ValueError | RecursionError

text \<open>Sequencing of steps that may raise.\<close>

definition and_then :: "'e + 'a \<Rightarrow> ('a \<Rightarrow> 'e + 'b) \<Rightarrow> 'e + 'b" where
  "and_then x f = (case x of Inl e \<Rightarrow> Inl e | Inr v \<Rightarrow> f v)"

fun all_ok :: "('e + 'a) list \<Rightarrow> 'e + 'a list" where
  "all_ok [] = Inr []"
| "all_ok (x # xs) = and_then x (\<lambda>v. and_then (all_ok xs) (\<lambda>vs. Inr (v # vs)))"

section \<open>Normalization utilities (layer1_extractor.py)\<close>

text \<open>\<open>re.sub(r'\s+', '-', tag)\<close>: every maximal run of whitespace becomes one hyphen.\<close>

function sub_spaces :: "string \<Rightarrow> string" where
  "sub_spaces [] = []"
| "sub_spaces (c # cs) =
     (if py_isspace c then CHR ''-'' # sub_spaces (dropWhile py_isspace cs)
      else c # sub_spaces cs)"
  by pat_completeness auto
termination
  by (relation "measure length") (auto simp: length_dropWhile_le less_Suc_eq_le)

text \<open>\<open>re.sub(r'[^\w\-]', '', tag)\<close>: only word characters and hyphens stay.\<close>

definition keeps :: "char \<Rightarrow> bool" where
  "keeps c = (re_word c \<or> c = CHR ''-'')"

definition sub_nonword :: "string \<Rightarrow> string" where
  "sub_nonword s = filter keeps s"

definition normalize_tag :: "string \<Rightarrow> string" where
  "normalize_tag tag = sub_nonword (sub_spaces (py_lower (py_strip tag)))"

text \<open>\<open>deduplicate_list\<close> on a list of strings: the loop with its \<open>seen\<close> set.\<close>

fun dedup_loop :: "string set \<Rightarrow> string list \<Rightarrow> string list" where
  "dedup_loop seen [] = []"
| "dedup_loop seen (item # items) =
     (let normalized = py_strip (py_lower item)
      in if normalized \<notin> seen then item # dedup_loop (insert normalized seen) items
         else dedup_loop seen items)"

definition deduplicate_list :: "string list \<Rightarrow> string list" where
  "deduplicate_list items = dedup_loop {} items"

subsection \<open>The reference definition of the specification\<close>

text \<open>
  The specification's words: the token lowercased, internal whitespace runs collapsed to
  single hyphens, every character outside a set of kept characters removed. A run is
  internal when text stands on both sides of it; the leading and the trailing run are
  left to the last step. \<open>spec_charset\<close> is the set \<open>[A-Za-z0-9_-]\<close> of the text.
\<close>

function collapse_inner :: "string \<Rightarrow> string" where
  "collapse_inner [] = []"
| "collapse_inner (c # cs) =
     (if py_isspace c
      then (let rest = dropWhile py_isspace cs
            in if rest = [] then c # cs else CHR ''-'' # collapse_inner rest)
      else c # collapse_inner cs)"
  by pat_completeness auto
termination
  by (relation "measure length") (auto simp: length_dropWhile_le less_Suc_eq_le)

definition collapse_internal :: "string \<Rightarrow> string" where
  "collapse_internal s =
     takeWhile py_isspace s @ collapse_inner (dropWhile py_isspace s)"

definition spec_charset :: "char \<Rightarrow> bool" where
  "spec_charset c = (ascii_word c \<or> c = CHR ''-'')"

definition normalize_spec :: "(char \<Rightarrow> bool) \<Rightarrow> string \<Rightarrow> string" where
  "normalize_spec kept token = filter kept (collapse_internal (py_lower token))"

subsection \<open>Document identifiers\<close>

text \<open>
  \<open>Path(source_path).stem\<close>, as \<open>pathlib\<close> computes it on a POSIX path: the path is
  cut at the slashes, empty components and \<open>.\<close> components are dropped, the name is the
  last component that remains (the empty string when none does), and the stem is the
  name up to its last dot, when that dot is neither the first nor the last character.
\<close>

definition path_parts :: "string \<Rightarrow> string list" where
  "path_parts p = filter (\<lambda>part. part \<noteq> [] \<and> part \<noteq> ''.'') (py_split (CHR ''/'') p)"

definition path_name :: "string \<Rightarrow> string" where
  "path_name p = (case rev (path_parts p) of [] \<Rightarrow> [] | n # _ \<Rightarrow> n)"

text \<open>
  \<open>str(Path(p))\<close> and \<open>str(Path(p) / q)\<close>: the root (one slash, or two when the path
  begins with exactly two) and the components joined by single slashes; the empty path
  prints as a dot, and an absolute \<open>q\<close> replaces \<open>p\<close>.
\<close>

definition path_root :: "string \<Rightarrow> string" where
  "path_root p =
     (if take 2 p = ''//'' \<and> take 3 p \<noteq> ''///'' then ''//''
      else if take 1 p = ''/'' then ''/'' else [])"

definition render_path :: "string \<Rightarrow> string list \<Rightarrow> string" where
  "render_path root parts =
     (if parts = [] then (if root = [] then ''.'' else root) else root @ py_join ''/'' parts)"

definition path_str :: "string \<Rightarrow> string" where
  "path_str p = render_path (path_root p) (path_parts p)"

definition path_join :: "string \<Rightarrow> string \<Rightarrow> string" where
  "path_join p q =
     (if path_root q \<noteq> [] then path_str q
      else render_path (path_root p) (path_parts p @ path_parts q))"

text \<open>\<open>name.rfind('.')\<close>: \<open>None\<close> stands for Python's -1.\<close>

fun rfind_dot :: "string \<Rightarrow> nat option" where
  "rfind_dot [] = None"
| "rfind_dot (c # cs) =
     (case rfind_dot cs of
        Some i \<Rightarrow> Some (Suc i)
      | None \<Rightarrow> (if c = CHR ''.'' then Some 0 else None))"

definition stem_of_name :: "string \<Rightarrow> string" where
  "stem_of_name name =
     (case rfind_dot name of
        Some i \<Rightarrow> (if 0 < i \<and> i + 1 < length name then take i name else name)
      | None \<Rightarrow> name)"

definition path_stem :: "string \<Rightarrow> string" where
  "path_stem p = stem_of_name (path_name p)"

text \<open>\<open>content.encode()\<close>: the UTF-8 bytes of the code points (two bytes from U+0080 on;
  here a \<^typ>\<open>char\<close> of the result is a byte).\<close>

definition utf8_char :: "char \<Rightarrow> char list" where
  "utf8_char c =
     (if code c < 128 then [c]
      else [char_of (192 + code c div 64), char_of (128 + code c mod 64)])"

definition utf8_encode :: "string \<Rightarrow> char list" where
  "utf8_encode s = concat (map utf8_char s)"

text \<open>
  \<open>generate_doc_id\<close>. The digest \<open>hashlib.md5(bytes).hexdigest()\<close> belongs to the
  Python library and is the parameter \<open>md5_hexdigest\<close>, from bytes to hexadecimal text.
\<close>

definition generate_doc_id :: "(char list \<Rightarrow> string) \<Rightarrow> string \<Rightarrow> string \<Rightarrow> string" where
  "generate_doc_id md5_hexdigest source_path content =
     (let filename = path_stem source_path;
          content_hash = take 8 (md5_hexdigest (utf8_encode content))
      in filename @ ''_'' @ content_hash)"

section \<open>Regular expressions of the \<open>re\<close> module\<close>

text \<open>
  The patterns of the source are kept as syntax trees and run by one backtracking
  matcher with the priorities of \<open>re\<close>: the alternatives of \<open>|\<close> from left to right,
  a greedy quantifier longest first, a lazy one shortest first. The matcher returns every
  way to match from a position, best first, so the match that \<open>re\<close> finds is the head
  of the list. Every quantified subpattern of the source repeats a single character
  (\<open>\s*\<close>, \<open>\d+\<close>, \<open>.+?\<close>, \<open>[^|\n]+\<close>) or is optional (\<open>(?:\*\*)?\<close>), which is what
  \<open>Rep\<close> and \<open>Opt\<close> provide.
\<close>

record flags =
  ignorecase :: bool
  multiline :: bool
  dotall :: bool

definition no_flags :: flags where
  "no_flags = \<lparr>ignorecase = False, multiline = False, dotall = False\<rparr>"

definition IGNORECASE :: flags where
  "IGNORECASE = \<lparr>ignorecase = True, multiline = False, dotall = False\<rparr>"

definition MULTILINE :: flags where
  "MULTILINE = \<lparr>ignorecase = False, multiline = True, dotall = False\<rparr>"

definition MULTILINE_DOTALL :: flags where
  "MULTILINE_DOTALL = \<lparr>ignorecase = False, multiline = True, dotall = True\<rparr>"

definition newline :: char where
  "newline = CHR 0x0A"

text \<open>The members of a bracketed set, and the patterns that consume one character.\<close>

datatype citem = ILit char | ISpace | IDigit | IWord

datatype atom = Lit char | Dot | Space | Digit | Word | OneOf "citem list" | NoneOf "citem list"

fun citem_ok :: "flags \<Rightarrow> citem \<Rightarrow> char \<Rightarrow> bool" where
  "citem_ok f (ILit x) c = (if ignorecase f then lower_char c = lower_char x else c = x)"
| "citem_ok f ISpace c = py_isspace c"
| "citem_ok f IDigit c = re_digit c"
| "citem_ok f IWord c = re_word c"

fun atom_ok :: "flags \<Rightarrow> atom \<Rightarrow> char \<Rightarrow> bool" where
  "atom_ok f (Lit x) c = (if ignorecase f then lower_char c = lower_char x else c = x)"
| "atom_ok f Dot c = (dotall f \<or> c \<noteq> newline)"
| "atom_ok f Space c = py_isspace c"
| "atom_ok f Digit c = re_digit c"
| "atom_ok f Word c = re_word c"
| "atom_ok f (OneOf items) c = list_ex (\<lambda>i. citem_ok f i c) items"
| "atom_ok f (NoneOf items) c = (\<not> list_ex (\<lambda>i. citem_ok f i c) items)"

datatype regex =
    Atom atom
  | Bol
  | Eol
  | Eps
  | Seq regex regex
  | Alt regex regex
  | Opt regex
  | Rep bool nat atom
  | Grp nat regex
  | Ahead regex

text \<open>
  \<open>Bol\<close> is \<open>^\<close>, \<open>Eol\<close> is \<open>$\<close>, \<open>Opt r\<close> is the greedy \<open>r?\<close>, \<open>Grp n r\<close> the
  capturing group number \<open>n\<close>, \<open>Ahead r\<close> the lookahead \<open>(?=r)\<close>. \<open>Rep greedy k a\<close>
  repeats the atom \<open>a\<close> at least \<open>k\<close> times: \<open>a*\<close> is \<open>Rep True 0 a\<close>, \<open>a+\<close> is
  \<open>Rep True 1 a\<close>, \<open>a+?\<close> is \<open>Rep False 1 a\<close>, \<open>a*?\<close> is \<open>Rep False 0 a\<close>.
\<close>

abbreviation Star :: "atom \<Rightarrow> regex" where
  "Star a \<equiv> Rep True 0 a"

abbreviation Plus :: "atom \<Rightarrow> regex" where
  "Plus a \<equiv> Rep True 1 a"

abbreviation LazyStar :: "atom \<Rightarrow> regex" where
  "LazyStar a \<equiv> Rep False 0 a"

abbreviation LazyPlus :: "atom \<Rightarrow> regex" where
  "LazyPlus a \<equiv> Rep False 1 a"

fun lits :: "string \<Rightarrow> regex" where
  "lits [] = Eps"
| "lits [c] = Atom (Lit c)"
| "lits (c # cs) = Seq (Atom (Lit c)) (lits cs)"

fun seqs :: "regex list \<Rightarrow> regex" where
  "seqs [] = Eps"
| "seqs [r] = r"
| "seqs (r # rs) = Seq r (seqs rs)"

fun alts :: "regex list \<Rightarrow> regex" where
  "alts [] = Eps"
| "alts [r] = r"
| "alts (r # rs) = Alt r (alts rs)"

text \<open>
  A matching state: the character before the position (\<open>None\<close> at the start of the
  text), the text from the position on, and the groups captured so far, latest first.
\<close>

type_synonym mstate = "char option \<times> string \<times> (nat \<times> string) list"

definition at_bol :: "flags \<Rightarrow> char option \<Rightarrow> bool" where
  "at_bol f prev = (prev = None \<or> (multiline f \<and> prev = Some newline))"

definition at_eol :: "flags \<Rightarrow> string \<Rightarrow> bool" where
  "at_eol f rest =
     (rest = [] \<or> rest = [newline] \<or> (multiline f \<and> take 1 rest = [newline]))"

text \<open>The state after the first \<open>j\<close> characters of the rest.\<close>

definition advance :: "mstate \<Rightarrow> nat \<Rightarrow> mstate" where
  "advance st j =
     (case st of (prev, rest, caps) \<Rightarrow>
        (if j = 0 then st else (Some (rest ! (j - 1)), drop j rest, caps)))"

fun rx :: "flags \<Rightarrow> regex \<Rightarrow> mstate \<Rightarrow> mstate list" where
  "rx f (Atom a) (prev, rest, caps) =
     (case rest of
        [] \<Rightarrow> []
      | c # cs \<Rightarrow> (if atom_ok f a c then [(Some c, cs, caps)] else []))"
| "rx f Bol (prev, rest, caps) = (if at_bol f prev then [(prev, rest, caps)] else [])"
| "rx f Eol (prev, rest, caps) = (if at_eol f rest then [(prev, rest, caps)] else [])"
| "rx f Eps st = [st]"
| "rx f (Seq r1 r2) st = concat (map (rx f r2) (rx f r1 st))"
| "rx f (Alt r1 r2) st = rx f r1 st @ rx f r2 st"
| "rx f (Opt r) st = rx f r st @ [st]"
| "rx f (Rep greedy k a) (prev, rest, caps) =
     (let n = length (takeWhile (atom_ok f a) rest);
          counts = (if greedy then rev [k..<Suc n] else [k..<Suc n])
      in map (advance (prev, rest, caps)) counts)"
| "rx f (Grp g r) (prev, rest, caps) =
     map (\<lambda>(prev', rest', caps').
            (prev', rest', (g, take (length rest - length rest') rest) # caps'))
         (rx f r (prev, rest, caps))"
| "rx f (Ahead r) st = (if rx f r st = [] then [] else [st])"

text \<open>\<open>m.group(n)\<close>; a group that took no part in the match reads as the empty string,
  as in the tuples of \<open>re.findall\<close>.\<close>

definition grp :: "(nat \<times> string) list \<Rightarrow> nat \<Rightarrow> string" where
  "grp caps n = (case map_of caps n of None \<Rightarrow> [] | Some t \<Rightarrow> t)"

text \<open>\<open>re.match\<close>: at the start of the text only. The result is the groups.\<close>

definition re_match :: "flags \<Rightarrow> regex \<Rightarrow> string \<Rightarrow> (nat \<times> string) list option" where
  "re_match f r s =
     (case rx f r (None, s, []) of [] \<Rightarrow> None | (prev, rest, caps) # _ \<Rightarrow> Some caps)"

text \<open>The leftmost match from a position on: the state where the best match ends.\<close>

fun re_scan :: "flags \<Rightarrow> regex \<Rightarrow> char option \<Rightarrow> string \<Rightarrow> mstate option" where
  "re_scan f r prev [] =
     (case rx f r (prev, [], []) of [] \<Rightarrow> None | st # _ \<Rightarrow> Some st)"
| "re_scan f r prev (c # cs) =
     (case rx f r (prev, c # cs, []) of
        [] \<Rightarrow> re_scan f r (Some c) cs
      | st # _ \<Rightarrow> Some st)"

definition re_search :: "flags \<Rightarrow> regex \<Rightarrow> string \<Rightarrow> (nat \<times> string) list option" where
  "re_search f r s =
     (case re_scan f r None s of None \<Rightarrow> None | Some (prev, rest, caps) \<Rightarrow> Some caps)"

text \<open>
  \<open>re.findall\<close>: the groups of the successive non-overlapping matches. The search goes
  on where the last match ended. The patterns of the source consume at least one
  character; after an empty match the search moves on by one character.
\<close>

function findall_from :: "flags \<Rightarrow> regex \<Rightarrow> char option \<Rightarrow> string \<Rightarrow> (nat \<times> string) list list" where
  "findall_from f r prev s =
     (case re_scan f r prev s of
        None \<Rightarrow> []
      | Some (prev', rest', caps) \<Rightarrow>
          caps #
          (if length rest' < length s then findall_from f r prev' rest'
           else (case rest' of [] \<Rightarrow> [] | c # cs \<Rightarrow>
                  (if length cs < length s then findall_from f r (Some c) cs else []))))"
  by pat_completeness auto
termination
  by (relation "measure (\<lambda>(f, r, prev, s). length s)") auto

definition re_findall :: "flags \<Rightarrow> regex \<Rightarrow> string \<Rightarrow> (nat \<times> string) list list" where
  "re_findall f r s = findall_from f r None s"

text \<open>\<open>re.split(r'[,;]', s)\<close>: the pieces between the separating characters.\<close>

fun split_on :: "(char \<Rightarrow> bool) \<Rightarrow> string \<Rightarrow> string list" where
  "split_on sep [] = [[]]"
| "split_on sep (c # cs) =
     (if sep c then [] # split_on sep cs
      else (case split_on sep cs of [] \<Rightarrow> [[c]] | w # ws \<Rightarrow> (c # w) # ws))"

section \<open>Section detection and parsing (layer1_extractor.py)\<close>

text \<open>\<open>Section\s*X[:.]?\<close>, the alternative common to the full-dialect patterns.\<close>

definition section_letter :: "string \<Rightarrow> regex" where
  "section_letter x =
     seqs [lits ''Section'', Star Space, lits x, Opt (Atom (OneOf [ILit (CHR '':''), ILit (CHR ''.'')]))]"

text \<open>\<open>^##\s*(?:alternatives)\<close>.\<close>

definition h2 :: "regex list \<Rightarrow> regex" where
  "h2 rs = seqs [Bol, lits ''##'', Star Space, alts rs]"

text \<open>\<open>FULL_SECTION_PATTERNS\<close> and \<open>QUICK_SECTION_PATTERNS\<close>, in the order of the
  dictionaries.\<close>

definition FULL_SECTION_PATTERNS :: "(string \<times> regex) list" where
  "FULL_SECTION_PATTERNS =
     [(''header'',
         seqs [Bol, lits ''#'', Star Space,
               alts [section_letter ''A'', lits ''SR-PTD'', lits ''Task Doc''],
               LazyStar Dot, alts [lits ''Header'', lits ''Skill Trigger'']]),
      (''context'',
         seqs [Bol, alts [seqs [lits ''##'', Star Space,
                                alts [section_letter ''B'', lits ''Context'', lits ''Inputs'']],
                          seqs [lits ''##'', Star Space, lits ''Problem Statement'']]]),
      (''workflow'', h2 [section_letter ''C'', lits ''Workflow'', lits ''Work Performed'']),
      (''knowledge'',
         h2 [section_letter ''D'', lits ''Knowledge'', lits ''Knowledge Used'',
             lits ''Knowledge Accessed'']),
      (''code'', h2 [section_letter ''E'', lits ''Code'', lits ''Code Written'']),
      (''outputs'', h2 [section_letter ''F'', lits ''Output'', lits ''Artifacts'', lits ''Files'']),
      (''issues'', h2 [section_letter ''G'', lits ''Issue'', lits ''Issues'', lits ''Problems'']),
      (''verification'',
         h2 [section_letter ''H'', lits ''Verification'', lits ''Validation'', lits ''Test'']),
      (''skill_assessment'',
         h2 [section_letter ''I'', seqs [lits ''Skill'', Star Dot, lits ''Assessment''],
             lits ''Reusability'']),
      (''tags'', h2 [section_letter ''J'', lits ''Tags''])]"

definition QUICK_SECTION_PATTERNS :: "(string \<times> regex) list" where
  "QUICK_SECTION_PATTERNS =
     [(''trigger'', h2 [lits ''Trigger'']),
      (''workflow'', h2 [lits ''Workflow'']),
      (''decisions'', h2 [lits ''Key Decisions'']),
      (''knowledge'', h2 [lits ''Knowledge'']),
      (''code'', h2 [lits ''Code'']),
      (''outputs'', h2 [lits ''Output'']),
      (''issues'', h2 [lits ''Issues'']),
      (''skill_potential'', h2 [lits ''Skill Potential'']),
      (''tags'', h2 [lits ''Tags''])]"

text \<open>\<open>SectionParser._detect_format\<close>.\<close>

definition detect_format :: "string \<Rightarrow> string" where
  "detect_format content =
     (let content_lower = py_lower content
      in if py_contains ''section a'' content_lower
            \<or> py_contains ''skill trigger profile'' content_lower
         then ''full''
         else if (py_contains ''| **type**:'' content_lower
                    \<or> py_contains ''**date**:'' (take 500 content))
                 \<and> py_contains ''## trigger'' content_lower
                 \<and> py_contains ''## workflow'' content_lower
         then ''quick''
         else if py_contains ''task doc'' content_lower
                 \<or> py_contains ''- **date**:'' (take 200 content)
         then ''legacy''
         else ''quick'')"

text \<open>\<open>SectionParser._match_section_header\<close>: the first pattern of the dialect's table that
  matches at the start of the line, case-insensitively.\<close>

fun first_match :: "(string \<times> regex) list \<Rightarrow> string \<Rightarrow> string option" where
  "first_match [] line = None"
| "first_match ((section_name, pattern) # patterns) line =
     (if re_match IGNORECASE pattern line \<noteq> None then Some section_name
      else first_match patterns line)"

definition match_section_header :: "string \<Rightarrow> string \<Rightarrow> string option" where
  "match_section_header fmt line =
     first_match (if fmt = ''full'' then FULL_SECTION_PATTERNS else QUICK_SECTION_PATTERNS) line"

text \<open>
  \<open>SectionParser.extract_sections\<close>. The dictionary \<open>sections\<close> is an association list
  in insertion order (\<open>AList.update\<close> overwrites in place, as a \<open>dict\<close> does). The loop
  carries \<open>sections\<close>, \<open>current_section\<close> and \<open>current_content\<close>.
\<close>

definition save_section ::
    "(string \<times> string) list \<Rightarrow> string \<Rightarrow> string list \<Rightarrow> (string \<times> string) list" where
  "save_section sections current_section current_content =
     (if current_content \<noteq> []
      then AList.update current_section (py_strip (py_join [newline] current_content)) sections
      else sections)"

fun sections_loop ::
    "string \<Rightarrow> string list \<Rightarrow> (string \<times> string) list \<Rightarrow> string \<Rightarrow> string list
     \<Rightarrow> (string \<times> string) list" where
  "sections_loop fmt [] sections current_section current_content =
     save_section sections current_section current_content"
| "sections_loop fmt (line # lines) sections current_section current_content =
     (case match_section_header fmt line of
        Some section_match \<Rightarrow>
          sections_loop fmt lines (save_section sections current_section current_content)
            section_match [line]
      | None \<Rightarrow>
          sections_loop fmt lines sections current_section (current_content @ [line]))"

definition extract_sections :: "string \<Rightarrow> (string \<times> string) list" where
  "extract_sections content =
     sections_loop (detect_format content) (py_split newline content) [] ''header'' []"

text \<open>\<open>sections.get(key, default)\<close>.\<close>

definition dict_get :: "(string \<times> 'v) list \<Rightarrow> string \<Rightarrow> 'v \<Rightarrow> 'v" where
  "dict_get d key dflt = (case map_of d key of None \<Rightarrow> dflt | Some v \<Rightarrow> v)"

section \<open>Content extractors (layer1_extractor.py)\<close>

subsection \<open>\<open>ContentExtractor.extract_workflow\<close>\<close>

record step_log =
  step_number :: int
  action :: string
  tool_command :: "string option"
  step_input :: "string option"
  step_output :: "string option"

record Workflow =
  workflow_type :: "string option"
  high_level_steps :: "string list"
  detailed_step_log :: "step_log list"
  decision_points :: "(string \<times> string option) list list"

text \<open>\<open>\*\*Workflow Type\*\*:\s*(\w+)\<close>\<close>

definition type_pattern :: regex where
  "type_pattern = seqs [lits ''**Workflow Type**:'', Star Space, Grp 1 (Plus Word)]"

text \<open>\<open>^\s*(\d+)\.\s+(.+?)(?=\n\s*\d+\.|$)\<close>\<close>

definition pattern1 :: regex where
  "pattern1 =
     seqs [Bol, Star Space, Grp 1 (Plus Digit), lits ''.'', Plus Space, Grp 2 (LazyPlus Dot),
           Ahead (Alt (seqs [Atom (Lit newline), Star Space, Plus Digit, lits ''.'']) Eol)]"

text \<open>\<open>^(\d+)\.\s*(.+)$\<close>\<close>

definition pattern2 :: regex where
  "pattern2 = seqs [Bol, Grp 1 (Plus Digit), lits ''.'', Star Space, Grp 2 (Plus Dot), Eol]"

text \<open>\<open>\|\s*([^|]+)\s*\|\s*([^|]+)\s*\|\s*([^|]+)\s*\|\s*([^|]+)\s*\|\<close>\<close>

definition table_cell :: "nat \<Rightarrow> regex" where
  "table_cell n = seqs [Star Space, Grp n (Plus (NoneOf [ILit (CHR ''|'')])), Star Space, lits ''|'']"

definition decision_table_pattern :: regex where
  "decision_table_pattern =
     seqs [lits ''|'', table_cell 1, table_cell 2, table_cell 3, table_cell 4]"

text \<open>\<open>-\s*\*?\*?([^*\n]+)\*?\*?\s*->\s*([^->]+)\s*(?:->\s*(.+))?\<close>\<close>

definition key_decision_pattern :: regex where
  "key_decision_pattern =
     seqs [lits ''-'', Star Space, Opt (lits ''*''), Opt (lits ''*''),
           Grp 1 (Plus (NoneOf [ILit (CHR ''*''), ILit newline])),
           Opt (lits ''*''), Opt (lits ''*''), Star Space, lits ''->'', Star Space,
           Grp 2 (Plus (NoneOf [ILit (CHR ''-''), ILit (CHR ''>'')])), Star Space,
           Opt (seqs [lits ''->'', Star Space, Grp 3 (Plus Dot)])]"

text \<open>\<open>int(num)\<close> on a run of decimal digits. Beyond 4300 digits (the default limit
  of the interpreter since Python 3.11) the conversion raises \<open>ValueError\<close>.\<close>

definition int_of_digits :: "string \<Rightarrow> py_error + int" where
  "int_of_digits num =
     (if 4300 < length num then Inl ValueError
      else Inr (foldl (\<lambda>acc c. 10 * acc + (int (code c) - 48)) 0 num))"

text \<open>\<open>s.startswith(prefix)\<close>.\<close>

definition startswith :: "string \<Rightarrow> string \<Rightarrow> bool" where
  "startswith s prefix = (take (length prefix) s = prefix)"

text \<open>The first pass over the numbered steps: \<open>pattern1\<close>, each text cut at its first
  line, empty texts and texts that begin with a hyphen dropped.\<close>

definition strict_steps :: "string \<Rightarrow> py_error + (int \<times> string) list" where
  "strict_steps content =
     and_then
       (all_ok (map (\<lambda>caps.
          (let clean_text = py_strip (hd (py_split newline (grp caps 2)))
           in if clean_text \<noteq> [] \<and> \<not> startswith clean_text ''-''
              then and_then (int_of_digits (grp caps 1)) (\<lambda>n. Inr [(n, clean_text)])
              else Inr []))
        (re_findall MULTILINE_DOTALL pattern1 content)))
       (\<lambda>found. Inr (concat found))"

text \<open>The second pass, \<open>pattern2\<close>, for single lines.\<close>

definition loose_steps :: "string \<Rightarrow> py_error + (int \<times> string) list" where
  "loose_steps content =
     all_ok (map (\<lambda>caps. and_then (int_of_digits (grp caps 1))
                            (\<lambda>n. Inr (n, py_strip (grp caps 2))))
       (re_findall MULTILINE pattern2 content))"

definition collected_steps :: "string \<Rightarrow> py_error + (int \<times> string) list" where
  "collected_steps content =
     and_then (strict_steps content)
       (\<lambda>steps. if steps = [] then loose_steps content else Inr steps)"


definition sorted_steps ::
    "((int \<times> string) list \<Rightarrow> (int \<times> string) list) \<Rightarrow> string
     \<Rightarrow> py_error + (int \<times> string) list" where
  "sorted_steps set_iter content =
     and_then (collected_steps content) (\<lambda>steps. Inr (sort_key fst (set_iter steps)))"

definition table_decisions :: "string \<Rightarrow> (string \<times> string option) list list" where
  "table_decisions content =
     concat (map (\<lambda>row.
         (if py_contains ''decision'' (py_lower (grp row 1)) \<or> py_contains ''---'' (grp row 1)
          then []
          else [[(''decision'', Some (py_strip (grp row 1))),
                 (''options'', Some (py_strip (grp row 2))),
                 (''choice'', Some (py_strip (grp row 3))),
                 (''rationale'', Some (py_strip (grp row 4)))]]))
       (re_findall no_flags decision_table_pattern content))"

definition key_decisions :: "string \<Rightarrow> (string \<times> string option) list list" where
  "key_decisions content =
     map (\<lambda>kd. [(''decision'', Some (py_strip (grp kd 1))),
                 (''choice'', Some (py_strip (grp kd 2))),
                 (''rationale'', Some (py_strip (grp kd 3)))])
       (re_findall no_flags key_decision_pattern content)"

definition extract_workflow ::
    "((int \<times> string) list \<Rightarrow> (int \<times> string) list) \<Rightarrow> string \<Rightarrow> py_error + Workflow" where
  "extract_workflow set_iter content =
     and_then (sorted_steps set_iter content)
       (\<lambda>sorted_list.
          (let steps = filter (\<lambda>(step_num, step_text). step_text \<noteq> []) sorted_list
           in Inr \<lparr>workflow_type =
                     (case re_search IGNORECASE type_pattern content of
                        None \<Rightarrow> None | Some caps \<Rightarrow> Some (grp caps 1)),
                   high_level_steps = map snd steps,
                   detailed_step_log =
                     map (\<lambda>(step_num, step_text).
                            \<lparr>step_number = step_num, action = step_text, tool_command = None,
                             step_input = None, step_output = None\<rparr>) steps,
                   decision_points = table_decisions content @ key_decisions content\<rparr>))"

subsection \<open>\<open>ContentExtractor.extract_tags\<close>\<close>

record Tags =
  languages :: "string list"
  frameworks :: "string list"
  tools :: "string list"
  domains :: "string list"
  patterns :: "string list"
  services :: "string list"
  safety_risk :: "string option"

text \<open>\<open>(?:\*\*)?label(?:\*\*)?:\s*([^|\n]+)\<close>, the shape of the six tag patterns.\<close>

definition tag_line :: "regex \<Rightarrow> regex" where
  "tag_line label =
     seqs [Opt (lits ''**''), label, Opt (lits ''**''), lits '':'', Star Space,
           Grp 1 (Plus (NoneOf [ILit (CHR ''|''), ILit newline]))]"

definition lang_pattern :: regex where
  "lang_pattern = tag_line (seqs [lits ''Language'', Opt (lits ''s'')])"

definition fw_pattern :: regex where
  "fw_pattern =
     tag_line (seqs [lits ''Framework'', Opt (lits ''s''), Opt (seqs [lits ''/Lib'', Opt (lits ''s'')])])"

definition domain_pattern :: regex where
  "domain_pattern = tag_line (seqs [lits ''Domain'', Opt (lits ''s'')])"

definition services_pattern :: regex where
  "services_pattern =
     tag_line (seqs [Opt (seqs [lits ''External'', Star Space]), lits ''Service'', Opt (lits ''s'')])"

definition pattern_pattern :: regex where
  "pattern_pattern = tag_line (seqs [lits ''Pattern'', Opt (lits ''s'')])"

definition tools_pattern :: regex where
  "tools_pattern = tag_line (Alt (seqs [lits ''Tool'', Opt (lits ''s'')]) (lits ''Operational''))"

text \<open>One field: the pattern searched, the group split at commas and semicolons, the
  blank pieces (and those that \<open>excluded\<close> names) left out, the others normalized. Without a
  match the field keeps its default, the empty list.\<close>

definition tag_field :: "regex \<Rightarrow> (string \<Rightarrow> bool) \<Rightarrow> string \<Rightarrow> string list" where
  "tag_field pattern excluded content =
     (case re_search IGNORECASE pattern content of
        None \<Rightarrow> []
      | Some caps \<Rightarrow>
          (let raw_tags = split_on (\<lambda>c. c = CHR '','' \<or> c = CHR '';'') (grp caps 1)
           in map normalize_tag (filter (\<lambda>t. py_strip t \<noteq> [] \<and> \<not> excluded t) raw_tags)))"

definition extract_tags :: "string \<Rightarrow> Tags" where
  "extract_tags content =
     \<lparr>languages = deduplicate_list (tag_field lang_pattern (\<lambda>t. False) content),
      frameworks = deduplicate_list (tag_field fw_pattern (\<lambda>t. False) content),
      tools = deduplicate_list (tag_field tools_pattern (\<lambda>t. False) content),
      domains = deduplicate_list (tag_field domain_pattern (\<lambda>t. False) content),
      patterns = deduplicate_list (tag_field pattern_pattern (\<lambda>t. False) content),
      services =
        deduplicate_list
          (tag_field services_pattern (\<lambda>t. py_lower (py_strip t) = ''none'') content),
      safety_risk = None\<rparr>"

section \<open>The document composer (layer1_extractor.py)\<close>

text \<open>
  \<open>SRPTDExtractor.extract\<close> (here \<open>SRPTDExtractor_extract\<close>), for the fields the checklist of warnings reads and the
  claims speak of: the identifier, the dialect, the raw sections, the workflow, the tags
  and the warnings. The metadata, trigger and code-block extractors are not translated;
  what \<open>_generate_warnings\<close> reads of their results (\<open>metadata.date\<close>,
  \<open>trigger.what_triggered\<close> after its fallbacks, the merged code blocks) is carried by
  the parameter \<open>other\<close>. The extraction raises when \<open>extract_workflow\<close> does.
\<close>

record other_fields =
  metadata_date :: "string option"
  trigger_what_triggered :: "string option"
  code_written_blocks :: "string list"

record SRPTDExtraction =
  doc_id :: string
  source_path :: string
  format_detected :: string
  others :: other_fields
  workflow :: Workflow
  tags :: Tags
  raw_sections :: "(string \<times> string) list"
  parse_warnings :: "string list"

text \<open>\<open>not x\<close> for an optional string: \<open>None\<close> and the empty string are false.\<close>

definition unset :: "string option \<Rightarrow> bool" where
  "unset x = (x = None \<or> x = Some [])"

text \<open>\<open>SRPTDExtractor._generate_warnings\<close>\<close>

definition generate_warnings :: "other_fields \<Rightarrow> Workflow \<Rightarrow> Tags \<Rightarrow> string list" where
  "generate_warnings other flow tg =
     (if unset (metadata_date other) then [''Missing: metadata.date''] else []) @
     (if unset (trigger_what_triggered other) then [''Missing: trigger.what_triggered''] else []) @
     (if high_level_steps flow = [] then [''Missing: workflow.high_level_steps''] else []) @
     (if code_written_blocks other = [] then [''Empty: code_written.blocks''] else []) @
     (if languages tg = [] then [''Missing: tags.languages''] else []) @
     (if domains tg = [] then [''Missing: tags.domains''] else [])"

text \<open>The text handed to \<open>extract_workflow\<close>: the workflow section, else the first section
  whose name contains \<open>work\<close> or \<open>step\<close>, else, in the legacy dialect, a header section
  with a numbered list.\<close>

definition workflow_content :: "string \<Rightarrow> (string \<times> string) list \<Rightarrow> string" where
  "workflow_content fmt sections =
     (let w0 = dict_get sections ''workflow'' [];
          w1 = (if w0 = []
                then (case find (\<lambda>(key, text). py_contains ''work'' (py_lower key)
                                                 \<or> py_contains ''step'' (py_lower key)) sections of
                        Some (key, text) \<Rightarrow> text
                      | None \<Rightarrow> w0)
                else w0);
          header_raw = dict_get sections ''header'' []
      in if w1 = [] \<and> fmt = ''legacy'' \<and> py_contains ''1. '' header_raw then header_raw else w1)"

text \<open>The text handed to \<open>extract_tags\<close>: the tags section (the empty string when there is
  none), a newline, and the last 1000 characters of the document, \<open>content[-1000:]\<close>.\<close>

definition tags_content :: "string \<Rightarrow> (string \<times> string) list \<Rightarrow> string" where
  "tags_content content sections =
     dict_get sections ''tags'' [] @ [newline] @ drop (length content - 1000) content"

definition SRPTDExtractor_extract ::
    "((int \<times> string) list \<Rightarrow> (int \<times> string) list) \<Rightarrow> (char list \<Rightarrow> string) \<Rightarrow> other_fields
     \<Rightarrow> string \<Rightarrow> string \<Rightarrow> py_error + SRPTDExtraction" where
  "SRPTDExtractor_extract set_iter md5_hexdigest other path content =
     (let fmt = detect_format content;
          sections = extract_sections content
      in and_then (extract_workflow set_iter (workflow_content fmt sections))
           (\<lambda>flow0.
              and_then
                (case map_of sections ''decisions'' of
                   None \<Rightarrow> Inr flow0
                 | Some text \<Rightarrow>
                     and_then (extract_workflow set_iter text)
                       (\<lambda>decision_wf.
                          Inr (flow0\<lparr>decision_points :=
                                  decision_points flow0 @ decision_points decision_wf\<rparr>)))
                (\<lambda>flow.
                   (let tg = extract_tags (tags_content content sections)
                    in Inr \<lparr>doc_id = generate_doc_id md5_hexdigest (path_str path) content,
                            source_path = path_str path,
                            format_detected = fmt,
                            others = other,
                            workflow = flow,
                            tags = tg,
                            raw_sections = sections,
                            parse_warnings = generate_warnings other flow tg\<rparr>))))"

section \<open>Batch processing (layer1_extractor.py)\<close>

text \<open>
  The input directory as \<open>process_directory\<close> meets it: its files in the order of the
  directory scan, each with its path below the directory (the components, the file name
  last) and with what becomes of it in the loop. \<open>load()\<close> returns \<open>False\<close>
  (\<open>LoadFails\<close>), or an exception leaves \<open>extract()\<close> or the writing of the output
  (\<open>Raises\<close>, with its message), or the document is extracted and written
  (\<open>Extracts\<close>, with its identifier, dialect and warnings).
\<close>

datatype doc_fate = LoadFails | Raises string | Extracts string string "string list"

record dir_file =
  rel_path :: "string list"
  fate :: doc_fate

record processed_entry =
  p_source :: string
  p_output :: string
  p_doc_id :: string
  p_format :: string
  p_warnings :: "string list"

record failed_entry =
  f_source :: string
  f_error :: string

record batch_results =
  processed :: "processed_entry list"
  failed :: "failed_entry list"
  total :: nat

definition file_name :: "dir_file \<Rightarrow> string" where
  "file_name f = (case rev (rel_path f) of [] \<Rightarrow> [] | n # _ \<Rightarrow> n)"

text \<open>
  \<open>input_path.glob(pattern)\<close> yields the files of the directory itself whose name the
  pattern matches; \<open>input_path.glob(f"**/{pattern}")\<close> yields those of the directory and
  of all its subdirectories, since \<open>**\<close> stands for any number of directories, none
  included. The pattern is the set of names it matches; the default is \<open>*.md\<close>.
\<close>

definition glob_here :: "(string \<Rightarrow> bool) \<Rightarrow> dir_file list \<Rightarrow> dir_file list" where
  "glob_here pattern dir = filter (\<lambda>f. length (rel_path f) = 1 \<and> pattern (file_name f)) dir"

definition glob_recursive :: "(string \<Rightarrow> bool) \<Rightarrow> dir_file list \<Rightarrow> dir_file list" where
  "glob_recursive pattern dir = filter (\<lambda>f. 1 \<le> length (rel_path f) \<and> pattern (file_name f)) dir"

definition md_pattern :: "string \<Rightarrow> bool" where
  "md_pattern name = (3 \<le> length name \<and> drop (length name - 3) name = ''.md'')"

text \<open>\<open>str(file_path)\<close> of a path that \<open>glob\<close> yields below \<open>Path(input_dir)\<close>.\<close>

definition file_source :: "string \<Rightarrow> dir_file \<Rightarrow> string" where
  "file_source input_dir f =
     render_path (path_root input_dir) (path_parts input_dir @ rel_path f)"

text \<open>One turn of the loop over \<open>srptd_files\<close>.\<close>

definition process_file :: "string \<Rightarrow> string \<Rightarrow> batch_results \<Rightarrow> dir_file \<Rightarrow> batch_results" where
  "process_file input_dir output_dir results f =
     (case fate f of
        Extracts ident fmt warnings \<Rightarrow>
          results\<lparr>processed := processed results @
            [\<lparr>p_source = file_source input_dir f,
              p_output = path_join output_dir (ident @ ''.json''),
              p_doc_id = ident, p_format = fmt, p_warnings = warnings\<rparr>]\<rparr>
      | LoadFails \<Rightarrow>
          results\<lparr>failed := failed results @
            [\<lparr>f_source = file_source input_dir f, f_error = ''Failed to load file''\<rparr>]\<rparr>
      | Raises msg \<Rightarrow>
          results\<lparr>failed := failed results @
            [\<lparr>f_source = file_source input_dir f, f_error = msg\<rparr>]\<rparr>)"

definition srptd_files :: "(string \<Rightarrow> bool) \<Rightarrow> dir_file list \<Rightarrow> dir_file list" where
  "srptd_files pattern dir =
     filter (\<lambda>f. startswith (file_name f) ''SR-PTD'' \<or> startswith (file_name f) ''task_doc'')
       (glob_here pattern dir @ glob_recursive pattern dir)"

definition process_directory ::
    "string \<Rightarrow> string \<Rightarrow> (string \<Rightarrow> bool) \<Rightarrow> dir_file list \<Rightarrow> batch_results" where
  "process_directory input_dir output_dir pattern dir =
     foldl (process_file input_dir output_dir)
       \<lparr>processed = [], failed = [], total = length (srptd_files pattern dir)\<rparr>
       (srptd_files pattern dir)"

section \<open>Loosely typed records\<close>

text \<open>
  What \<open>json.loads\<close> returns. A \<open>dict\<close> is an association list read with \<open>map_of\<close>;
  \<open>JFloat m e\<close> is the finite float \<open>m \<sqdot> 2\<^sup>e\<close>. The exceptions that the operations on
  such values raise are results of the model (\<open>py_error\<close>).
\<close>

datatype json =
    JNull
  | JBool bool
  | JInt int
  | JFloat int int
  | JStr string
  | JArr "json list"
  | JObj "(string \<times> json) list"

type_synonym jdict = "(string \<times> json) list"

text \<open>The truth value of a value, as \<open>if x\<close> and \<open>x or y\<close> take it.\<close>

fun truthy :: "json \<Rightarrow> bool" where
  "truthy JNull = False"
| "truthy (JBool b) = b"
| "truthy (JInt i) = (i \<noteq> 0)"
| "truthy (JFloat m e) = (m \<noteq> 0)"
| "truthy (JStr s) = (s \<noteq> [])"
| "truthy (JArr xs) = (xs \<noteq> [])"
| "truthy (JObj d) = (d \<noteq> [])"



text \<open>\<open>x.get(key, default)\<close> on any value: only a \<open>dict\<close> has the method.\<close>

fun obj_get :: "json \<Rightarrow> string \<Rightarrow> json \<Rightarrow> py_error + json" where
  "obj_get (JObj d) key dflt = Inr (dict_get d key dflt)"
| "obj_get v key dflt = Inl AttributeError"

text \<open>\<open>x.lower()\<close> on any value: only a \<open>str\<close> has the method.\<close>

fun str_lower :: "json \<Rightarrow> py_error + string" where
  "str_lower (JStr s) = Inr (py_lower s)"
| "str_lower v = Inl AttributeError"

section \<open>The entry normalizer (claude_logs_parser.py)\<close>

datatype MessageRole = USER | ASSISTANT | SYSTEM | TOOL | TOOL_RESULT

text \<open>A \<open>datetime\<close>: a point in time, in microseconds since the epoch.\<close>

datatype datetime = Datetime int

record ToolUse =
  tool_name :: json
  tool_id :: json
  parameters :: json
  tool_result :: "string option"
  success :: bool
  tool_timestamp :: "datetime option"

record Message =
  role :: MessageRole
  content :: json
  timestamp :: "datetime option"
  tool_uses :: "ToolUse list"
  thinking :: json
  token_count :: json
  raw_data :: jdict






















section \<open>Document cards (phase_c_clustering.py)\<close>

text \<open>\<open>for x in v\<close>: the elements of a list, the characters of a \<open>str\<close>, the keys of a
  \<open>dict\<close>; nothing else can be iterated.\<close>

fun py_iter :: "json \<Rightarrow> py_error + json list" where
  "py_iter (JArr xs) = Inr xs"
| "py_iter (JStr s) = Inr (map (\<lambda>c. JStr [c]) s)"
| "py_iter (JObj d) = Inr (map (\<lambda>(k, v). JStr k) d)"
| "py_iter v = Inl TypeError"

text \<open>\<open>v[:n]\<close>: a list or a \<open>str\<close> can be sliced.\<close>

fun py_slice :: "nat \<Rightarrow> json \<Rightarrow> py_error + json" where
  "py_slice n (JArr xs) = Inr (JArr (take n xs))"
| "py_slice n (JStr s) = Inr (JStr (take n s))"
| "py_slice n v = Inl TypeError"

text \<open>\<open>s.replace(' ', '-')\<close>\<close>

definition replace_spaces :: "string \<Rightarrow> string" where
  "replace_spaces s = map (\<lambda>c. if c = CHR '' '' then CHR ''-'' else c) s"

text \<open>\<open>DocCardGenerator._normalize_tags\<close>: the loop with \<open>normalized\<close> and \<open>seen\<close>. A tag
  that is true and not a \<open>str\<close> has no \<open>lower\<close>.\<close>

fun normalize_loop :: "json list \<Rightarrow> string list \<Rightarrow> string set \<Rightarrow> py_error + string list" where
  "normalize_loop [] normalized seen = Inr normalized"
| "normalize_loop (tag # rest) normalized seen =
     (if \<not> truthy tag then normalize_loop rest normalized seen
      else and_then (str_lower tag)
             (\<lambda>lowered.
                (let tag_lower = replace_spaces (py_strip lowered)
                 in if tag_lower \<notin> seen \<and> tag_lower \<noteq> ''unknown''
                    then normalize_loop rest (normalized @ [tag_lower]) (insert tag_lower seen)
                    else normalize_loop rest normalized seen)))"

definition normalize_tags :: "json \<Rightarrow> py_error + string list" where
  "normalize_tags v = and_then (py_iter v) (\<lambda>items. normalize_loop items [] {})"

record card_tags =
  card_domains :: "string list"
  card_patterns :: "string list"
  card_frameworks :: "string list"
  card_languages :: "string list"
  card_tools :: "string list"

record card_trigger =
  card_what_triggered :: json
  card_keywords :: json
  card_draft_trigger :: json

record DocCard =
  card_doc_id :: json
  card_format_detected :: json
  scores :: "(string \<times> json) list"
  card_tags :: card_tags
  trigger :: card_trigger
  workflow_steps :: json
  artifacts :: "json list"
  issues :: "json list"
  bucket_key :: string
  created_at :: string

text \<open>The first tag of a list, or the sentinel.\<close>

definition primary :: "string list \<Rightarrow> string" where
  "primary ts = (case ts of [] \<Rightarrow> ''unknown'' | t # _ \<Rightarrow> t)"

text \<open>
  \<open>DocCardGenerator.generate_card\<close> on an extraction read back from its JSON file. The
  clock reading \<open>datetime.now().isoformat()\<close> is the parameter \<open>now\<close>. The steps are in
  the order in which Python evaluates them, so the first failing one gives the exception.
\<close>

definition generate_card :: "string \<Rightarrow> jdict \<Rightarrow> py_error + DocCard" where
  "generate_card now extraction =
     (let skill_assessment = dict_get extraction ''skill_assessment'' (JObj []);
          raw_tags = dict_get extraction ''tags'' (JObj []);
          trigger_data = dict_get extraction ''trigger'' (JObj []);
          flow = dict_get extraction ''workflow'' (JObj []);
          outputs = dict_get extraction ''outputs_produced'' (JObj []);
          issues_data = dict_get extraction ''issues_and_fixes'' (JObj [])
      in
      and_then (all_ok (map (\<lambda>(name, key). and_then (obj_get skill_assessment key JNull)
                                               (\<lambda>v. Inr (name, v)))
         [(''reusability_total'', ''reusability_score''),
          (''frequency_score'', ''frequency_score''),
          (''consistency_score'', ''consistency_score''),
          (''complexity_score'', ''complexity_score''),
          (''codifiability_score'', ''codifiability_score''),
          (''toolability_score'', ''toolability_score''),
          (''extraction_priority'', ''extraction_priority'')])) (\<lambda>the_scores.
      and_then (and_then (obj_get raw_tags ''domains'' (JArr [])) normalize_tags) (\<lambda>ds.
      and_then (and_then (obj_get raw_tags ''patterns'' (JArr [])) normalize_tags) (\<lambda>ps.
      and_then (and_then (obj_get raw_tags ''frameworks'' (JArr [])) normalize_tags) (\<lambda>fs.
      and_then (and_then (obj_get raw_tags ''languages'' (JArr [])) normalize_tags) (\<lambda>ls.
      and_then (and_then (obj_get raw_tags ''tools'' (JArr [])) normalize_tags) (\<lambda>ts.
      and_then (obj_get trigger_data ''what_triggered'' (JStr [])) (\<lambda>what.
      and_then (and_then (obj_get trigger_data ''keywords_phrases'' (JArr [])) (py_slice 10)) (\<lambda>kws.
      and_then (obj_get trigger_data ''draft_skill_trigger'' (JStr [])) (\<lambda>draft.
      and_then (and_then (obj_get flow ''high_level_steps'' (JArr [])) (py_slice 5)) (\<lambda>steps.
      and_then (and_then (and_then (and_then (obj_get outputs ''artifacts'' (JArr [])) (py_slice 5))
                  py_iter)
                  (\<lambda>items. all_ok (map (\<lambda>a. obj_get a ''name'' (JStr [])) items))) (\<lambda>arts.
      and_then (and_then (and_then (and_then (obj_get issues_data ''items'' (JArr [])) (py_slice 5))
                  py_iter)
                  (\<lambda>items. all_ok (map (\<lambda>i. and_then (obj_get i ''issue'' (JStr []))
                                                   (py_slice 80)) items))) (\<lambda>iss.
      Inr \<lparr>card_doc_id = dict_get extraction ''doc_id'' (JStr ''unknown''),
           card_format_detected = dict_get extraction ''format_detected'' (JStr ''unknown''),
           scores = the_scores,
           card_tags = \<lparr>card_domains = ds, card_patterns = ps, card_frameworks = fs,
                        card_languages = ls, card_tools = ts\<rparr>,
           trigger = \<lparr>card_what_triggered = what, card_keywords = kws,
                      card_draft_trigger = draft\<rparr>,
           workflow_steps = steps,
           artifacts = arts,
           issues = iss,
           bucket_key = primary ds @ ''__'' @ primary ps,
           created_at = now\<rparr>)))))))))))))"

section \<open>Notions of the specification\<close>

text \<open>A full-dialect section marker, as the marker scan of \<open>_detect_format\<close> finds it.\<close>

definition full_marker :: "string \<Rightarrow> bool" where
  "full_marker doc =
     (py_contains ''section a'' (py_lower doc) \<or> py_contains ''skill trigger profile'' (py_lower doc))"

text \<open>A subsection marker: a line that opens with the second-level heading mark.\<close>

definition subsection_marker :: "string \<Rightarrow> bool" where
  "subsection_marker doc = list_ex (\<lambda>line. startswith line ''##'') (py_split newline doc)"

text \<open>The lines of a document, and whether one of them is matched as the header section.\<close>

definition doc_lines :: "string \<Rightarrow> string list" where
  "doc_lines doc = py_split newline doc"

definition header_line :: "string \<Rightarrow> bool" where
  "header_line doc =
     list_ex (\<lambda>line. match_section_header ''full'' line = Some ''header'') (doc_lines doc)"


text \<open>
  An empty tags section: the document has no tags section, or nothing but blank lines
  follows the heading line that opens it.
\<close>

definition tags_section_empty :: "string \<Rightarrow> bool" where
  "tags_section_empty doc =
     (case map_of (extract_sections doc) ''tags'' of
        None \<Rightarrow> True
      | Some text \<Rightarrow> list_all (\<lambda>line. py_strip line = []) (tl (py_split newline text)))"

text \<open>No tag label in a text: none of the six patterns of \<open>extract_tags\<close> matches in it.\<close>

definition tag_patterns :: "regex list" where
  "tag_patterns =
     [lang_pattern, fw_pattern, domain_pattern, services_pattern, pattern_pattern, tools_pattern]"

definition no_tag_label :: "string \<Rightarrow> bool" where
  "no_tag_label text = list_all (\<lambda>p. re_search IGNORECASE p text = None) tag_patterns"

text \<open>The six tag lists of an extraction.\<close>

definition tag_lists :: "SRPTDExtraction \<Rightarrow> string list list" where
  "tag_lists e =
     [languages (tags e), frameworks (tags e), tools (tags e), domains (tags e),
      patterns (tags e), services (tags e)]"

text \<open>A directory of ten documents named \<open>SR-PTD_01.md\<close> to \<open>SR-PTD_10.md\<close>, of which the
  third and the seventh cannot be loaded; \<open>place\<close> is where each lies below the input
  directory.\<close>

definition ten_names :: "string list" where
  "ten_names = [''01'', ''02'', ''03'', ''04'', ''05'', ''06'', ''07'', ''08'', ''09'', ''10'']"

definition ten_documents :: "string list \<Rightarrow> dir_file list" where
  "ten_documents place =
     map (\<lambda>n. \<lparr>rel_path = place @ [''SR-PTD_'' @ n @ ''.md''],
               fate = (if n = ''03'' \<or> n = ''07'' then LoadFails
                       else Extracts (''SR-PTD_'' @ n @ ''_0a1b2c3d'') ''quick'' [])\<rparr>)
       ten_names"

text \<open>Stand-ins for the library in closed examples: a digest that is constant, and
  library calls that always fail.\<close>

definition zero_digest :: "char list \<Rightarrow> string" where
  "zero_digest bytes = replicate 32 (CHR ''0'')"

definition no_other :: other_fields where
  "no_other = \<lparr>metadata_date = None, trigger_what_triggered = None, code_written_blocks = []\<rparr>"



section \<open>Properties of the string functions and of \<open>normalize_tag\<close>\<close>

lemma code_lt: "code c < 256"
  unfolding code_def by simp

lemma code_char_of: "n < 256 \<Longrightarrow> code (char_of n) = n"
  unfolding code_def by (simp add: of_char_of)

lemma code_lower_char:
  "code (lower_char c) = (if py_isupper c then code c + 32 else code c)"
  by (auto simp: lower_char_def py_isupper_def Let_def code_char_of)

lemma lower_char_idem: "lower_char (lower_char c) = lower_char c"
proof -
  have "\<not> py_isupper (lower_char c)"
    using code_lt [of c] by (auto simp: py_isupper_def code_lower_char Let_def)
  then show ?thesis by (simp add: lower_char_def)
qed

lemma isspace_lower_char: "py_isspace (lower_char c) = py_isspace c"
  by (auto simp: py_isspace_def code_lower_char Let_def py_isupper_def)

lemma keeps_not_space: "keeps c \<Longrightarrow> \<not> py_isspace c"
  by (auto simp: keeps_def re_word_def ascii_word_def py_isspace_def Let_def code_def)

lemma lower_hyphen: "lower_char (CHR ''-'') = CHR ''-''"
  by (simp add: lower_char_def py_isupper_def code_def)

lemma sub_spaces_set: "set (sub_spaces s) \<subseteq> insert (CHR ''-'') (set s)"
proof (induction s rule: sub_spaces.induct)
  case 1 show ?case by simp
next
  case (2 c cs)
  show ?case
  proof (cases "py_isspace c")
    case True
    with 2 have "set (sub_spaces (dropWhile py_isspace cs)) \<subseteq> insert (CHR ''-'') (set (dropWhile py_isspace cs))" by simp
    moreover have "set (dropWhile py_isspace cs) \<subseteq> set cs" by (rule set_dropWhileD [THEN subsetI]) 
    ultimately show ?thesis using True by auto
  next
    case False
    with 2 show ?thesis by auto
  qed
qed

lemma sub_spaces_id: "\<forall>c\<in>set s. \<not> py_isspace c \<Longrightarrow> sub_spaces s = s"
  by (induction s) auto

lemma dropWhile_none: "\<forall>c\<in>set s. \<not> P c \<Longrightarrow> dropWhile P s = s"
  by (cases s) auto

lemma strip_id: "\<forall>c\<in>set s. \<not> py_isspace c \<Longrightarrow> py_strip s = s"
  by (simp add: py_strip_def py_lstrip_def py_rstrip_def dropWhile_none)

lemma normalize_tag_chars:
  assumes "c \<in> set (normalize_tag t)"
  shows "keeps c" and "lower_char c = c"
proof -
  from assms show k: "keeps c" by (simp add: normalize_tag_def sub_nonword_def)
  from assms have "c \<in> set (sub_spaces (py_lower (py_strip t)))"
    by (simp add: normalize_tag_def sub_nonword_def)
  with sub_spaces_set have "c = CHR ''-'' \<or> c \<in> set (py_lower (py_strip t))" by blast
  then show "lower_char c = c"
    by (auto simp: py_lower_def lower_hyphen lower_char_idem)
qed

lemma space_o_lower: "py_isspace \<circ> lower_char = py_isspace"
  by (rule ext) (simp add: isspace_lower_char)

lemma lower_strip: "py_lower (py_strip t) = py_strip (py_lower t)"
  by (simp add: py_lower_def py_strip_def py_lstrip_def py_rstrip_def
      dropWhile_map rev_map space_o_lower)

lemma takeWhile_lower: "takeWhile py_isspace (py_lower t) = py_lower (takeWhile py_isspace t)"
  by (simp add: py_lower_def takeWhile_map space_o_lower)

lemma rstrip_Cons:
  "py_rstrip (c # cs) = (if (\<forall>x\<in>set (c # cs). py_isspace x) then [] else c # py_rstrip cs)"
  by (auto simp: py_rstrip_def dropWhile_append)

lemma rstrip_Nil: "py_rstrip [] = []"
  by (simp add: py_rstrip_def)

lemma dropWhile_rstrip:
  "dropWhile py_isspace (py_rstrip cs) = py_rstrip (dropWhile py_isspace cs)"
proof (induction cs)
  case Nil show ?case by (simp add: rstrip_Nil)
next
  case (Cons c cs)
  show ?case
  proof (cases "\<forall>x\<in>set (c # cs). py_isspace x")
    case True
    then have b: "dropWhile py_isspace (c # cs) = []" by (metis dropWhile_eq_Nil_conv)
    have a: "py_rstrip (c # cs) = []" using True by (simp add: rstrip_Cons)
    show ?thesis unfolding a b by (simp add: rstrip_Nil)
  next
    case False
    show ?thesis
    proof (cases "py_isspace c")
      case True
      with False Cons show ?thesis by (auto simp: rstrip_Cons)
    next
      case nsp: False
      then show ?thesis by (simp add: rstrip_Cons)
    qed
  qed
qed

lemma filter_keeps_spaces: "\<forall>x\<in>set s. py_isspace x \<Longrightarrow> filter keeps s = []"
  using keeps_not_space by (induction s) auto

lemma core_agree:
  "filter keeps (sub_spaces (py_rstrip v)) = filter keeps (collapse_inner v)"
proof (induction v rule: collapse_inner.induct)
  case 1 show ?case by (simp add: rstrip_Nil)
next
  case (2 c cs)
  show ?case
  proof (cases "py_isspace c")
    case nsp: False
    with 2 show ?thesis by (simp add: rstrip_Cons)
  next
    case sp: True
    show ?thesis
    proof (cases "dropWhile py_isspace cs = []")
      case True
      then have all: "\<forall>x\<in>set (c # cs). py_isspace x"
        using sp by (auto simp: dropWhile_eq_Nil_conv)
      then have "filter keeps (c # cs) = []" by (rule filter_keeps_spaces)
      with all sp True show ?thesis
        by (simp add: rstrip_Cons del: filter.simps)
    next
      case False
      then have nall: "\<not> (\<forall>x\<in>set (c # cs). py_isspace x)"
        by (auto simp: dropWhile_eq_Nil_conv)
      from 2(1) [OF sp refl False]
      have ih: "filter keeps (sub_spaces (py_rstrip (dropWhile py_isspace cs))) =
                filter keeps (collapse_inner (dropWhile py_isspace cs))" .
      have "sub_spaces (py_rstrip (c # cs)) =
            CHR ''-'' # sub_spaces (py_rstrip (dropWhile py_isspace cs))"
        using nall sp by (simp add: rstrip_Cons dropWhile_rstrip)
      moreover have "collapse_inner (c # cs) = CHR ''-'' # collapse_inner (dropWhile py_isspace cs)"
        using sp False by (simp add: Let_def del: dropWhile_eq_Nil_conv)
      moreover have "keeps (CHR ''-'')" by (simp add: keeps_def)
      ultimately show ?thesis using ih by simp
    qed
  qed
qed

lemma normalize_tag_general: "normalize_tag t = normalize_spec keeps t"
proof -
  let ?u = "py_lower t"
  have "filter keeps (takeWhile py_isspace ?u) = []"
    by (rule filter_keeps_spaces) (auto dest: set_takeWhileD)
  then have "normalize_spec keeps t = filter keeps (collapse_inner (dropWhile py_isspace ?u))"
    by (simp add: normalize_spec_def collapse_internal_def)
  also have "\<dots> = filter keeps (sub_spaces (py_rstrip (dropWhile py_isspace ?u)))"
    by (simp add: core_agree)
  also have "\<dots> = filter keeps (sub_spaces (py_strip (py_lower t)))"
    by (simp add: py_strip_def py_lstrip_def)
  also have "\<dots> = normalize_tag t"
    by (simp add: normalize_tag_def sub_nonword_def lower_strip)
  finally show ?thesis by simp
qed

lemma ascii_keeps: "is_ascii c \<Longrightarrow> keeps c = spec_charset c"
  by (auto simp: is_ascii_def keeps_def spec_charset_def re_word_def Let_def)

lemma ascii_lower: "is_ascii c \<Longrightarrow> is_ascii (lower_char c)"
  by (auto simp: is_ascii_def code_lower_char py_isupper_def Let_def)

lemma collapse_inner_set: "set (collapse_inner s) \<subseteq> insert (CHR ''-'') (set s)"
proof (induction s rule: collapse_inner.induct)
  case 1 show ?case by simp
next
  case (2 c cs)
  have sub: "set (dropWhile py_isspace cs) \<subseteq> set cs"
    by (auto dest: set_dropWhileD)
  show ?case
  proof (cases "py_isspace c")
    case False with 2 show ?thesis by auto
  next
    case True
    show ?thesis
    proof (cases "dropWhile py_isspace cs = []")
      case e: True with True show ?thesis by (auto simp: Let_def)
    next
      case ne: False
      with 2(1) [OF True refl ne] sub True show ?thesis by (auto simp: Let_def)
    qed
  qed
qed

lemma collapse_internal_set: "set (collapse_internal s) \<subseteq> insert (CHR ''-'') (set s)"
proof -
  have "set (takeWhile py_isspace s) \<subseteq> set s" by (auto dest: set_takeWhileD)
  moreover have "set (dropWhile py_isspace s) \<subseteq> set s" by (auto dest: set_dropWhileD)
  ultimately show ?thesis
    using collapse_inner_set [of "dropWhile py_isspace s"]
    by (auto simp: collapse_internal_def)
qed

lemma normalize_spec_ascii:
  assumes "\<forall>c\<in>set t. is_ascii c"
  shows "normalize_spec keeps t = normalize_spec spec_charset t"
proof -
  have "\<forall>c\<in>set (py_lower t). is_ascii c"
    using assms by (auto simp: py_lower_def ascii_lower)
  moreover have "is_ascii (CHR ''-'')" by (simp add: is_ascii_def code_def)
  ultimately have "\<forall>c\<in>set (collapse_internal (py_lower t)). is_ascii c"
    using collapse_internal_set [of "py_lower t"] by auto
  then show ?thesis
    unfolding normalize_spec_def by (intro filter_cong refl) (simp add: ascii_keeps)
qed

section \<open>Properties of the section loop and of the batch loop\<close>

lemma and_then_Inr: "and_then x f = Inr y \<longleftrightarrow> (\<exists>v. x = Inr v \<and> f v = Inr y)"
  by (cases x) (auto simp: and_then_def)

lemma keys_save:
  "fst ` set (save_section s cur c) = fst ` set s \<union> (if c \<noteq> [] then {cur} else {})"
  by (auto simp: save_section_def dom_update)

lemma keys_sections_loop:
  "fst ` set (sections_loop fmt lines s cur c) =
     fst ` set s \<union> {n. \<exists>l\<in>set lines. match_section_header fmt l = Some n} \<union>
     (if c \<noteq> [] \<or> (lines \<noteq> [] \<and> match_section_header fmt (hd lines) = None) then {cur} else {})"
proof (induction lines arbitrary: s cur c)
  case Nil
  show ?case by (simp add: keys_save)
next
  case (Cons line lines)
  show ?case
  proof (cases "match_section_header fmt line")
    case None
    then show ?thesis using Cons [of s cur "c @ [line]"] by auto
  next
    case (Some n)
    then show ?thesis using Cons [of "save_section s cur c" n "[line]"]
      by (auto simp: keys_save)
  qed
qed

lemma py_split_nonempty: "py_split sep s \<noteq> []"
  by (induction s) (auto split: list.splits)

lemma process_file_counts:
  "length (processed (process_file i out r f)) + length (failed (process_file i out r f)) =
   Suc (length (processed r) + length (failed r))"
  by (cases "fate f") (auto simp: process_file_def)

lemma process_file_total: "total (process_file i out r f) = total r"
  by (cases "fate f") (auto simp: process_file_def)

lemma foldl_process_counts:
  "length (processed (foldl (process_file i out) r fs)) + length (failed (foldl (process_file i out) r fs))
   = length (processed r) + length (failed r) + length fs \<and>
   total (foldl (process_file i out) r fs) = total r"
  by (induction fs arbitrary: r) (auto simp: process_file_counts process_file_total)

section \<open>The steps of the workflow example\<close>








section \<open>Properties of the composer\<close>

lemma warnings_languages:
  "''Missing: tags.languages'' \<in> set (generate_warnings other flow tg) \<longleftrightarrow> languages tg = []"
  by (simp add: generate_warnings_def)

lemma warnings_domains:
  "''Missing: tags.domains'' \<in> set (generate_warnings other flow tg) \<longleftrightarrow> domains tg = []"
  by (simp add: generate_warnings_def)

lemma extract_fields:
  assumes "SRPTDExtractor_extract set_iter md5_hexdigest other path doc = Inr e"
  shows "tags e = extract_tags (tags_content doc (extract_sections doc))"
    and "parse_warnings e = generate_warnings other (workflow e) (tags e)"
  using assms unfolding SRPTDExtractor_extract_def Let_def and_then_Inr
  by (auto split: option.splits)

lemma extract_success:
  assumes "extract_workflow set_iter (workflow_content (detect_format doc) (extract_sections doc))
             = Inr flow0"
    and "map_of (extract_sections doc) ''decisions'' = None"
  shows "\<exists>e. SRPTDExtractor_extract set_iter md5_hexdigest other path doc = Inr e"
  using assms by (simp add: SRPTDExtractor_extract_def Let_def and_then_def)

text \<open>The composer raises only what \<open>int\<close> raises in \<open>extract_workflow\<close>.\<close>

lemma and_then_Inl_iff:
  "and_then x f = Inl e \<longleftrightarrow> x = Inl e \<or> (\<exists>v. x = Inr v \<and> f v = Inl e)"
  by (cases x) (auto simp: and_then_def)

lemma Inl_and_then_iff:
  "Inl e = and_then x f \<longleftrightarrow> x = Inl e \<or> (\<exists>v. x = Inr v \<and> f v = Inl e)"
  by (cases x) (auto simp: and_then_def)

lemma all_ok_Inl: "all_ok xs = Inl e \<Longrightarrow> Inl e \<in> set xs"
  by (induction xs) (auto simp: and_then_Inl_iff)

lemma int_of_digits_error:
  "int_of_digits num = Inl e \<longleftrightarrow> e = ValueError \<and> 4300 < length num"
  by (auto simp: int_of_digits_def split: if_splits)

lemma strict_steps_error: "strict_steps body = Inl e \<Longrightarrow> e = ValueError"
  by (auto simp: strict_steps_def Let_def and_then_Inl_iff Inl_and_then_iff int_of_digits_error
           dest!: all_ok_Inl split: if_splits)

lemma loose_steps_error: "loose_steps body = Inl e \<Longrightarrow> e = ValueError"
  by (auto simp: loose_steps_def and_then_Inl_iff Inl_and_then_iff int_of_digits_error
           dest!: all_ok_Inl)

lemma extract_workflow_error: "extract_workflow set_iter body = Inl e \<Longrightarrow> e = ValueError"
  by (auto simp: extract_workflow_def sorted_steps_def collected_steps_def Let_def and_then_Inl_iff
           dest: strict_steps_error loose_steps_error split: if_splits)

lemma extract_error:
  "SRPTDExtractor_extract set_iter md5_hexdigest other path doc = Inl e \<Longrightarrow> e = ValueError"
  by (auto simp: SRPTDExtractor_extract_def Let_def and_then_Inl_iff
           dest: extract_workflow_error split: option.splits)

lemma extract_languages:
  assumes "SRPTDExtractor_extract set_iter md5_hexdigest other path doc = Inr e"
  shows "languages (tags e) =
     deduplicate_list (tag_field lang_pattern (\<lambda>t. False) (tags_content doc (extract_sections doc)))"
  by (simp add: extract_fields(1) [OF assms] extract_tags_def)

lemma extract_languages_warning:
  assumes "SRPTDExtractor_extract set_iter md5_hexdigest other path doc = Inr e"
  shows "''Missing: tags.languages'' \<in> set (parse_warnings e) \<longleftrightarrow> languages (tags e) = []"
  by (simp only: extract_fields(2) [OF assms] warnings_languages)

lemma empty_workflow:
  "extract_workflow remdups [] =
     Inr \<lparr>workflow_type = None, high_level_steps = [], detailed_step_log = [],
          decision_points = []\<rparr>"
  by code_simp

section \<open>Properties of the entry normalizer\<close>







section \<open>Claims on \<open>normalize_tag\<close>\<close>

text \<open>
  C6, as amended. \<open>normalize_tag\<close> equals the reference definition (token lowercased,
  internal whitespace runs collapsed to single hyphens, characters outside the kept set
  removed) when the kept set is the one of the code's pattern: the word characters of
  \<open>\w\<close>, which include non-ASCII letters and digits, and the hyphen. With the set
  \<open>[A-Za-z0-9_-]\<close> of the specification the two agree on every ASCII token.
\<close>

theorem normalize_tag_reference:
  "normalize_tag t = normalize_spec keeps t \<and>
   ((\<forall>c\<in>set t. is_ascii c) \<longrightarrow> normalize_tag t = normalize_spec spec_charset t)"
proof (intro conjI impI)
  show "normalize_tag t = normalize_spec keeps t"
    by (rule normalize_tag_general)
next
  assume "\<forall>c\<in>set t. is_ascii c"
  then have "normalize_spec keeps t = normalize_spec spec_charset t"
    by (rule normalize_spec_ascii)
  then show "normalize_tag t = normalize_spec spec_charset t"
    by (simp add: normalize_tag_general)
qed

theorem normalize_tag_reference_witness:
  "list_all is_ascii ''  Web  API!  '' \<and>
   normalize_tag ''  Web  API!  '' = normalize_spec spec_charset ''  Web  API!  '' \<and>
   normalize_tag ''  Web  API!  '' = ''web-api''"
proof -
  have h: "\<forall>c\<in>set ''  Web  API!  ''. is_ascii c"
    by (simp add: is_ascii_def code_def)
  have v: "normalize_tag ''  Web  API!  '' = ''web-api''"
    by code_simp
  have l: "list_all is_ascii ''  Web  API!  ''"
    using h by (simp only: list_all_iff)
  from normalize_tag_reference [of "''  Web  API!  ''"] h
  have "normalize_tag ''  Web  API!  '' = normalize_spec spec_charset ''  Web  API!  ''"
    by blast
  with l v show ?thesis by blast
qed

text \<open>
  C6 as stated fails: the one-character token U+00E9 (a lowercase e with acute accent) is
  a word character, so the code keeps it, while the reference definition with the set
  \<open>[A-Za-z0-9_-]\<close> removes it.
\<close>

theorem normalize_tag_reference_counterexample:
  "normalize_tag [CHR 0xE9] = [CHR 0xE9] \<and> normalize_spec spec_charset [CHR 0xE9] = [] \<and>
   normalize_tag [CHR 0xE9] \<noteq> normalize_spec spec_charset [CHR 0xE9]"
  by code_simp

text \<open>
  C7. \<open>normalize_tag\<close> is a total function from strings to strings (it has no error
  branch: no step of it can raise on a \<open>str\<close>), and it is idempotent, on the empty
  string and on strings with non-ASCII characters as on any other.
\<close>

theorem normalize_tag_idempotent:
  "normalize_tag (normalize_tag t) = normalize_tag t"
proof -
  let ?r = "normalize_tag t"
  have ns: "\<forall>c\<in>set ?r. \<not> py_isspace c"
    using normalize_tag_chars(1) keeps_not_space by blast
  have "py_strip ?r = ?r" using ns by (rule strip_id)
  moreover have "py_lower ?r = ?r"
    unfolding py_lower_def using normalize_tag_chars(2) by (simp add: map_idI)
  moreover have "sub_spaces ?r = ?r" using ns by (rule sub_spaces_id)
  moreover have "sub_nonword ?r = ?r"
    unfolding sub_nonword_def using normalize_tag_chars(1) by (simp add: filter_id_conv)
  ultimately show ?thesis by (simp add: normalize_tag_def [of ?r])
qed

theorem normalize_tag_idempotent_witness:
  "normalize_tag (normalize_tag [CHR 0xC9, CHR '' '', CHR 0xA0, CHR ''B'', CHR ''!'']) =
     normalize_tag [CHR 0xC9, CHR '' '', CHR 0xA0, CHR ''B'', CHR ''!''] \<and>
   normalize_tag [CHR 0xC9, CHR '' '', CHR 0xA0, CHR ''B'', CHR ''!''] = [CHR 0xE9, CHR ''-'', CHR ''b''] \<and>
   normalize_tag (normalize_tag []) = normalize_tag [] \<and> normalize_tag [] = []"
proof -
  have v: "normalize_tag [CHR 0xC9, CHR '' '', CHR 0xA0, CHR ''B'', CHR ''!''] = [CHR 0xE9, CHR ''-'', CHR ''b'']"
    by code_simp
  have e: "normalize_tag [] = []"
    by code_simp
  from normalize_tag_idempotent [of "[CHR 0xC9, CHR '' '', CHR 0xA0, CHR ''B'', CHR ''!'']"]
    normalize_tag_idempotent [of "[]"] v e
  show ?thesis by blast
qed

section \<open>Claims on \<open>generate_doc_id\<close>\<close>

text \<open>
  C1. \<open>generate_doc_id\<close> is deterministic: two invocations with identical source path
  and identical content return the identical identifier (the digest being the function
  of the bytes that MD5 is).
\<close>

theorem generate_doc_id_deterministic:
  "p1 = p2 \<Longrightarrow> c1 = c2 \<Longrightarrow>
   generate_doc_id md5_hexdigest p1 c1 = generate_doc_id md5_hexdigest p2 c2"
  by simp

theorem generate_doc_id_deterministic_witness:
  "\<forall>h. generate_doc_id h ''raw/SR-PTD_fix.md'' ''# Fix'' = generate_doc_id h ''raw/SR-PTD_fix.md'' ''# Fix''
       \<and> generate_doc_id h ''raw/SR-PTD_fix.md'' ''# Fix'' = ''SR-PTD_fix_'' @ take 8 (h ''# Fix'')"
proof
  fix h :: "char list \<Rightarrow> string"
  have stem: "path_stem ''raw/SR-PTD_fix.md'' = ''SR-PTD_fix''"
    by code_simp
  have bytes: "utf8_encode ''# Fix'' = ''# Fix''"
    by code_simp
  have v: "generate_doc_id h ''raw/SR-PTD_fix.md'' ''# Fix'' = ''SR-PTD_fix_'' @ take 8 (h ''# Fix'')"
    by (simp add: generate_doc_id_def Let_def stem bytes)
  from generate_doc_id_deterministic [OF refl refl, of h "''raw/SR-PTD_fix.md''" "''# Fix''"] v
  show "generate_doc_id h ''raw/SR-PTD_fix.md'' ''# Fix'' = generate_doc_id h ''raw/SR-PTD_fix.md'' ''# Fix''
       \<and> generate_doc_id h ''raw/SR-PTD_fix.md'' ''# Fix'' = ''SR-PTD_fix_'' @ take 8 (h ''# Fix'')"
    by (rule conjI)
qed

text \<open>
  C10. \<open>generate_doc_id\<close> depends on the source path only through the stem of its last
  component: two paths with equal stems and one content get the same identifier,
  whatever their directories. Two files of the same name and content in different
  directories collide.
\<close>

theorem generate_doc_id_stem_only:
  "path_stem p1 = path_stem p2 \<Longrightarrow>
   generate_doc_id md5_hexdigest p1 c = generate_doc_id md5_hexdigest p2 c"
  by (simp add: generate_doc_id_def)

theorem generate_doc_id_stem_only_witness:
  "\<forall>h c. ''raw/a/SR-PTD_fix.md'' \<noteq> ''raw/b/SR-PTD_fix.md''
         \<and> path_stem ''raw/a/SR-PTD_fix.md'' = path_stem ''raw/b/SR-PTD_fix.md''
         \<and> generate_doc_id h ''raw/a/SR-PTD_fix.md'' c = generate_doc_id h ''raw/b/SR-PTD_fix.md'' c"
proof (intro allI)
  fix h :: "char list \<Rightarrow> string" and c :: string
  have ne: "''raw/a/SR-PTD_fix.md'' \<noteq> ''raw/b/SR-PTD_fix.md''"
    by simp
  have stems: "path_stem ''raw/a/SR-PTD_fix.md'' = path_stem ''raw/b/SR-PTD_fix.md''"
    by code_simp
  from ne stems generate_doc_id_stem_only [OF stems, of h c]
  show "''raw/a/SR-PTD_fix.md'' \<noteq> ''raw/b/SR-PTD_fix.md''
         \<and> path_stem ''raw/a/SR-PTD_fix.md'' = path_stem ''raw/b/SR-PTD_fix.md''
         \<and> generate_doc_id h ''raw/a/SR-PTD_fix.md'' c = generate_doc_id h ''raw/b/SR-PTD_fix.md'' c"
    by blast
qed

section \<open>Claim on \<open>process_directory\<close>\<close>

text \<open>
  C2. A batch of ten documents of which two fail to load should report eight processed,
  two failed and a total of ten. When the ten documents lie in the input directory
  itself, both \<open>glob\<close> calls list them, the loop takes each of them twice, and the
  result reports sixteen processed, four failed and a total of twenty. (The loop does
  go through every file: no failure stops it.)
\<close>

theorem process_directory_top_level_twice:
  "length (processed (process_directory ''in'' ''out'' md_pattern (ten_documents []))) = 16 \<and>
   length (failed (process_directory ''in'' ''out'' md_pattern (ten_documents []))) = 4 \<and>
   total (process_directory ''in'' ''out'' md_pattern (ten_documents [])) = 20"
  by code_simp

text \<open>What does hold of every directory: each listed file ends in exactly one of the two
  lists; and the ten documents give 8, 2 and 10 when they lie in a subdirectory.\<close>

lemma process_directory_counts:
  "length (processed (process_directory i out pat dir)) +
   length (failed (process_directory i out pat dir)) = total (process_directory i out pat dir)"
  using foldl_process_counts
    [of i out "\<lparr>processed = [], failed = [], total = length (srptd_files pat dir)\<rparr>"
        "srptd_files pat dir"]
  by (simp add: process_directory_def)

lemma process_directory_subdirectory:
  "length (processed (process_directory ''in'' ''out'' md_pattern (ten_documents [''batch'']))) = 8 \<and>
   length (failed (process_directory ''in'' ''out'' md_pattern (ten_documents [''batch'']))) = 2 \<and>
   total (process_directory ''in'' ''out'' md_pattern (ten_documents [''batch''])) = 10"
  by code_simp

section \<open>Claim on \<open>LogEntryParser.parse_entry\<close>\<close>




section \<open>Claim on the section splitter\<close>

text \<open>
  C4, as amended. A document that contains a full-dialect section marker is detected as
  \<open>full\<close>. Its sections contain the key \<open>header\<close> exactly when its first line is not
  matched as a section heading (the leading span is then not empty and is named
  \<open>header\<close>) or some line is matched as the heading of the header section.
\<close>

theorem full_document_header:
  assumes "full_marker doc"
  shows "detect_format doc = ''full'' \<and>
         (''header'' \<in> fst ` set (extract_sections doc) \<longleftrightarrow>
            match_section_header ''full'' (hd (doc_lines doc)) = None \<or> header_line doc)"
proof -
  from assms have fmt: "detect_format doc = ''full''"
    by (auto simp: full_marker_def detect_format_def Let_def)
  have ne: "doc_lines doc \<noteq> []"
    by (simp add: doc_lines_def py_split_nonempty)
  have "fst ` set (extract_sections doc) =
          {n. \<exists>l\<in>set (doc_lines doc). match_section_header ''full'' l = Some n} \<union>
          (if match_section_header ''full'' (hd (doc_lines doc)) = None then {''header''} else {})"
    using ne by (simp add: extract_sections_def fmt keys_sections_loop doc_lines_def)
  then have "''header'' \<in> fst ` set (extract_sections doc) \<longleftrightarrow>
        match_section_header ''full'' (hd (doc_lines doc)) = None \<or>
        (\<exists>l\<in>set (doc_lines doc). match_section_header ''full'' l = Some ''header'')"
    by auto
  with fmt show ?thesis
    by (simp add: header_line_def list_ex_iff)
qed

theorem full_document_header_witness:
  "full_marker ''Notes on section A\<newline>## Workflow\<newline>1. Build'' \<and>
   detect_format ''Notes on section A\<newline>## Workflow\<newline>1. Build'' = ''full'' \<and>
   match_section_header ''full'' (hd (doc_lines ''Notes on section A\<newline>## Workflow\<newline>1. Build'')) = None \<and>
   ''header'' \<in> fst ` set (extract_sections ''Notes on section A\<newline>## Workflow\<newline>1. Build'')"
proof -
  have m: "full_marker ''Notes on section A\<newline>## Workflow\<newline>1. Build''"
    by code_simp
  have n: "match_section_header ''full'' (hd (doc_lines ''Notes on section A\<newline>## Workflow\<newline>1. Build'')) = None"
    by code_simp
  from full_document_header [OF m] m n show ?thesis
    by blast
qed

text \<open>
  C4 as stated fails: the document below contains the marker \<open>section a\<close> and the
  subsection heading \<open>## Workflow\<close>, and is detected as \<open>full\<close>; its first line opens the
  workflow section, so there is no leading span and no line to match the header pattern:
  the only section is \<open>workflow\<close>.
\<close>

theorem full_document_header_counterexample:
  "full_marker ''## Workflow\<newline>section a'' \<and>
   subsection_marker ''## Workflow\<newline>section a'' \<and>
   detect_format ''## Workflow\<newline>section a'' = ''full'' \<and>
   extract_sections ''## Workflow\<newline>section a'' = [(''workflow'', ''## Workflow\<newline>section a'')] \<and>
   ''header'' \<notin> fst ` set (extract_sections ''## Workflow\<newline>section a'')"
proof -
  have a: "full_marker ''## Workflow\<newline>section a''"
    by code_simp
  have b: "subsection_marker ''## Workflow\<newline>section a''"
    by code_simp
  have c: "detect_format ''## Workflow\<newline>section a'' = ''full''"
    by code_simp
  have d: "extract_sections ''## Workflow\<newline>section a'' = [(''workflow'', ''## Workflow\<newline>section a'')]"
    by code_simp
  have e: "''header'' \<notin> fst ` set (extract_sections ''## Workflow\<newline>section a'')"
    unfolding d by simp
  from a b c d e show ?thesis by blast
qed

section \<open>Claim on \<open>extract_workflow\<close>\<close>



section \<open>Claim on the tags of an extraction\<close>

text \<open>
  C8, as amended. \<open>extract_tags\<close> reads the tags section followed by the last 1000
  characters of the document. When no tag label occurs in that text, all six tag lists
  of the resulting extraction are empty and its warnings contain both
  \<open>Missing: tags.languages\<close> and \<open>Missing: tags.domains\<close>, whatever the other
  extractors return. (No extraction results only when \<open>int\<close> raises \<open>ValueError\<close> on
  a step number of more than 4300 digits.)
\<close>

theorem no_label_no_tags:
  assumes "no_tag_label (tags_content doc (extract_sections doc))"
  shows "(\<forall>err. SRPTDExtractor_extract set_iter md5_hexdigest other path doc = Inl err
                \<longrightarrow> err = ValueError) \<and>
         (\<forall>e. SRPTDExtractor_extract set_iter md5_hexdigest other path doc = Inr e
                \<longrightarrow> list_all (\<lambda>l. l = []) (tag_lists e) \<and>
                    ''Missing: tags.languages'' \<in> set (parse_warnings e) \<and>
                    ''Missing: tags.domains'' \<in> set (parse_warnings e))"
proof -
  have raises: "\<forall>err. SRPTDExtractor_extract set_iter md5_hexdigest other path doc = Inl err
                \<longrightarrow> err = ValueError"
    by (auto dest: extract_error)
  have returns: "\<forall>e. SRPTDExtractor_extract set_iter md5_hexdigest other path doc = Inr e
                \<longrightarrow> list_all (\<lambda>l. l = []) (tag_lists e) \<and>
                    ''Missing: tags.languages'' \<in> set (parse_warnings e) \<and>
                    ''Missing: tags.domains'' \<in> set (parse_warnings e)"
  proof (intro allI impI)
    fix e
    assume result: "SRPTDExtractor_extract set_iter md5_hexdigest other path doc = Inr e"
    let ?scanned = "tags_content doc (extract_sections doc)"
    from assms have none: "\<And>p. p \<in> set tag_patterns \<Longrightarrow> re_search IGNORECASE p ?scanned = None"
      by (simp add: no_tag_label_def list_all_iff)
    have field: "\<And>p d. p \<in> set tag_patterns \<Longrightarrow> tag_field p d ?scanned = []"
      by (simp add: tag_field_def none)
    have "extract_tags ?scanned =
            \<lparr>languages = [], frameworks = [], tools = [], domains = [], patterns = [],
             services = [], safety_risk = None\<rparr>"
      by (simp add: extract_tags_def field tag_patterns_def deduplicate_list_def)
    then have t: "tags e =
            \<lparr>languages = [], frameworks = [], tools = [], domains = [], patterns = [],
             services = [], safety_risk = None\<rparr>"
      by (simp add: extract_fields(1) [OF result])
    then have "list_all (\<lambda>l. l = []) (tag_lists e)"
      by (simp add: tag_lists_def)
    moreover from t have "''Missing: tags.languages'' \<in> set (parse_warnings e)"
      by (simp add: extract_fields(2) [OF result] warnings_languages)
    moreover from t have "''Missing: tags.domains'' \<in> set (parse_warnings e)"
      by (simp add: extract_fields(2) [OF result] warnings_domains)
    ultimately show "list_all (\<lambda>l. l = []) (tag_lists e) \<and>
                      ''Missing: tags.languages'' \<in> set (parse_warnings e) \<and>
                      ''Missing: tags.domains'' \<in> set (parse_warnings e)"
      by blast
  qed
  from raises returns show ?thesis
    by blast
qed

theorem no_label_no_tags_witness:
  "tags_section_empty ''# Notes\<newline>## Tags'' \<and>
   no_tag_label (tags_content ''# Notes\<newline>## Tags'' (extract_sections ''# Notes\<newline>## Tags'')) \<and>
   (\<exists>e. SRPTDExtractor_extract remdups zero_digest no_other ''raw/SR-PTD_n.md'' ''# Notes\<newline>## Tags''
          = Inr e \<and>
        tag_lists e = [[], [], [], [], [], []] \<and>
        ''Missing: tags.languages'' \<in> set (parse_warnings e) \<and>
        ''Missing: tags.domains'' \<in> set (parse_warnings e))"
proof -
  have s: "extract_sections ''# Notes\<newline>## Tags'' = [(''header'', ''# Notes''), (''tags'', ''## Tags'')]"
    by code_simp
  have c: "tags_content ''# Notes\<newline>## Tags'' [(''header'', ''# Notes''), (''tags'', ''## Tags'')]
             = ''## Tags\<newline># Notes\<newline>## Tags''"
    by code_simp
  have f: "workflow_content (detect_format ''# Notes\<newline>## Tags'')
             [(''header'', ''# Notes''), (''tags'', ''## Tags'')] = []"
    by code_simp
  have e: "tags_section_empty ''# Notes\<newline>## Tags''"
    unfolding tags_section_empty_def s by code_simp
  have h: "no_tag_label (tags_content ''# Notes\<newline>## Tags'' (extract_sections ''# Notes\<newline>## Tags''))"
    unfolding s c by code_simp
  have "\<exists>e. SRPTDExtractor_extract remdups zero_digest no_other ''raw/SR-PTD_n.md''
               ''# Notes\<newline>## Tags'' = Inr e"
    by (rule extract_success [where ?flow0.0 = "\<lparr>workflow_type = None, high_level_steps = [],
          detailed_step_log = [], decision_points = []\<rparr>"])
       (simp_all add: s f empty_workflow)
  then obtain x where x: "SRPTDExtractor_extract remdups zero_digest no_other ''raw/SR-PTD_n.md''
               ''# Notes\<newline>## Tags'' = Inr x"
    by blast
  from no_label_no_tags [OF h, of remdups zero_digest no_other "''raw/SR-PTD_n.md''"] x
  have "tag_lists x = [[], [], [], [], [], []] \<and>
        ''Missing: tags.languages'' \<in> set (parse_warnings x) \<and>
        ''Missing: tags.domains'' \<in> set (parse_warnings x)"
    by (simp add: tag_lists_def)
  with e h x show ?thesis
    by blast
qed

text \<open>
  C8 as stated fails. In the first document the tags section is its heading alone, in
  the second there is no tags section; in both the label \<open>Languages\<close> stands in the last
  1000 characters of the document, so the extraction (which does not raise) has the
  language \<open>python\<close> and does not give the warning \<open>Missing: tags.languages\<close>.
\<close>

theorem no_label_no_tags_counterexample:
  "tags_section_empty ''Languages: Python\<newline>## Tags'' \<and>
   map_of (extract_sections ''Languages: Python\<newline>## Tags'') ''tags'' = Some ''## Tags'' \<and>
   \<not> isl (SRPTDExtractor_extract remdups zero_digest no_other ''raw/SR-PTD_a.md''
      ''Languages: Python\<newline>## Tags'') \<and>
   languages (tags (projr (SRPTDExtractor_extract remdups zero_digest no_other ''raw/SR-PTD_a.md''
      ''Languages: Python\<newline>## Tags''))) = [''python''] \<and>
   ''Missing: tags.languages'' \<notin> set (parse_warnings
     (projr (SRPTDExtractor_extract remdups zero_digest no_other ''raw/SR-PTD_a.md''
        ''Languages: Python\<newline>## Tags''))) \<and>
   tags_section_empty ''Languages: Python'' \<and>
   map_of (extract_sections ''Languages: Python'') ''tags'' = None \<and>
   \<not> isl (SRPTDExtractor_extract remdups zero_digest no_other ''raw/SR-PTD_b.md''
      ''Languages: Python'') \<and>
   languages (tags (projr (SRPTDExtractor_extract remdups zero_digest no_other ''raw/SR-PTD_b.md''
      ''Languages: Python''))) = [''python''] \<and>
   ''Missing: tags.languages'' \<notin> set (parse_warnings
     (projr (SRPTDExtractor_extract remdups zero_digest no_other ''raw/SR-PTD_b.md''
        ''Languages: Python'')))"
proof -
  let ?none = "\<lparr>workflow_type = None, high_level_steps = [], detailed_step_log = [],
                 decision_points = []\<rparr>"
  have d: "deduplicate_list [''python''] = [''python'']"
    by code_simp
  have sa: "extract_sections ''Languages: Python\<newline>## Tags'' =
              [(''header'', ''Languages: Python''), (''tags'', ''## Tags'')]"
    by code_simp
  have ca: "tags_content ''Languages: Python\<newline>## Tags''
              [(''header'', ''Languages: Python''), (''tags'', ''## Tags'')]
            = ''## Tags\<newline>Languages: Python\<newline>## Tags''"
    by code_simp
  have fa: "workflow_content (detect_format ''Languages: Python\<newline>## Tags'')
              [(''header'', ''Languages: Python''), (''tags'', ''## Tags'')] = []"
    by code_simp
  have ta: "tag_field lang_pattern (\<lambda>t. False) ''## Tags\<newline>Languages: Python\<newline>## Tags'' = [''python'']"
    by code_simp
  have ea: "tags_section_empty ''Languages: Python\<newline>## Tags''"
    unfolding tags_section_empty_def sa by code_simp
  have ma: "map_of (extract_sections ''Languages: Python\<newline>## Tags'') ''tags'' = Some ''## Tags''"
    unfolding sa by simp
  have "\<exists>e. SRPTDExtractor_extract remdups zero_digest no_other ''raw/SR-PTD_a.md''
               ''Languages: Python\<newline>## Tags'' = Inr e"
    by (rule extract_success [where ?flow0.0 = ?none]) (simp_all add: sa fa empty_workflow)
  then obtain a where a: "SRPTDExtractor_extract remdups zero_digest no_other ''raw/SR-PTD_a.md''
               ''Languages: Python\<newline>## Tags'' = Inr a"
    by blast
  have la: "languages (tags a) = [''python'']"
    by (simp only: extract_languages [OF a] sa ca ta d)
  have wa: "''Missing: tags.languages'' \<notin> set (parse_warnings a)"
    using la by (simp add: extract_languages_warning [OF a])
  have sb: "extract_sections ''Languages: Python'' = [(''header'', ''Languages: Python'')]"
    by code_simp
  have cb: "tags_content ''Languages: Python'' [(''header'', ''Languages: Python'')]
            = ''\<newline>Languages: Python''"
    by code_simp
  have fb: "workflow_content (detect_format ''Languages: Python'')
              [(''header'', ''Languages: Python'')] = []"
    by code_simp
  have tb: "tag_field lang_pattern (\<lambda>t. False) ''\<newline>Languages: Python'' = [''python'']"
    by code_simp
  have eb: "tags_section_empty ''Languages: Python''"
    unfolding tags_section_empty_def sb by code_simp
  have mb: "map_of (extract_sections ''Languages: Python'') ''tags'' = None"
    unfolding sb by simp
  have "\<exists>e. SRPTDExtractor_extract remdups zero_digest no_other ''raw/SR-PTD_b.md''
               ''Languages: Python'' = Inr e"
    by (rule extract_success [where ?flow0.0 = ?none]) (simp_all add: sb fb empty_workflow)
  then obtain b where b: "SRPTDExtractor_extract remdups zero_digest no_other ''raw/SR-PTD_b.md''
               ''Languages: Python'' = Inr b"
    by blast
  have lb: "languages (tags b) = [''python'']"
    by (simp only: extract_languages [OF b] sb cb tb d)
  have wb: "''Missing: tags.languages'' \<notin> set (parse_warnings b)"
    using lb by (simp add: extract_languages_warning [OF b])
  from ea ma la wa eb mb lb wb show ?thesis
    unfolding a b by simp
qed

section \<open>Claim on \<open>generate_card\<close>\<close>

text \<open>
  C9. Every card that \<open>generate_card\<close> produces has the bucket key
  \<open>{primary_domain}__{primary_pattern}\<close>, each side the first element of the card's
  normalized domains, respectively patterns, or \<open>unknown\<close> when that list is empty. In
  particular the domains \<open>api-development\<close>, \<open>testing\<close> with no pattern give
  \<open>api-development__unknown\<close>.
\<close>

theorem generate_card_bucket_key:
  assumes "generate_card now extraction = Inr dc"
  shows "bucket_key dc =
           primary (card_domains (card_tags dc)) @ ''__'' @ primary (card_patterns (card_tags dc)) \<and>
         (card_domains (card_tags dc) = [''api-development'', ''testing''] \<and>
          card_patterns (card_tags dc) = []
            \<longrightarrow> bucket_key dc = ''api-development__unknown'')"
proof -
  from assms have key:
    "bucket_key dc =
       primary (card_domains (card_tags dc)) @ ''__'' @ primary (card_patterns (card_tags dc))"
    unfolding generate_card_def Let_def and_then_Inr by auto
  then show ?thesis
    by (simp add: primary_def)
qed

theorem generate_card_bucket_key_witness:
  "\<exists>dc. generate_card ''2026-01-01T00:00:00''
           [(''doc_id'', JStr ''d1''),
            (''tags'', JObj [(''domains'', JArr [JStr ''api-development'', JStr ''testing'']),
                            (''patterns'', JArr [])])] = Inr dc \<and>
         card_domains (card_tags dc) = [''api-development'', ''testing''] \<and>
         card_patterns (card_tags dc) = [] \<and>
         bucket_key dc = ''api-development__unknown''"
proof -
  let ?e = "[(''doc_id'', JStr ''d1''),
            (''tags'', JObj [(''domains'', JArr [JStr ''api-development'', JStr ''testing'']),
                            (''patterns'', JArr [])])]"
  let ?dc = "\<lparr>card_doc_id = JStr ''d1'', card_format_detected = JStr ''unknown'',
        scores =
          [(''reusability_total'', JNull), (''frequency_score'', JNull),
           (''consistency_score'', JNull), (''complexity_score'', JNull),
           (''codifiability_score'', JNull), (''toolability_score'', JNull),
           (''extraction_priority'', JNull)],
        card_tags =
          \<lparr>card_domains = [''api-development'', ''testing''],
             card_patterns = [], card_frameworks = [], card_languages = [],
             card_tools = []\<rparr>,
        trigger =
          \<lparr>card_what_triggered = JStr [], card_keywords = JArr [],
             card_draft_trigger = JStr []\<rparr>,
        workflow_steps = JArr [], artifacts = [], issues = [],
        bucket_key = ''api-development__unknown'',
        created_at = ''2026-01-01T00:00:00''\<rparr>"
  have g: "generate_card ''2026-01-01T00:00:00'' ?e = Inr ?dc"
    by code_simp
  have d: "card_domains (card_tags ?dc) = [''api-development'', ''testing'']"
    by simp
  have p: "card_patterns (card_tags ?dc) = []"
    by simp
  from generate_card_bucket_key [OF g] d p
  have "bucket_key ?dc = ''api-development__unknown''"
    by blast
  with g d p show ?thesis
    by blast
qed

end
